theory Spec2Isabelle
  imports Complex_Main
begin

section \<open>Python exceptions\<close>

text \<open>
  The exceptions that the modelled functions of \<^verbatim>\<open>imucal\<close> can raise. A function that can
  raise returns \<open>error + 'a\<close>, with \<open>Inl\<close> for the exception.
\<close>

datatype error =
    ValueError string
  | TypeError
  | KeyError string
  | AttributeError
  | StopIteration
  | AxisError
  | ZeroDivisionError
  | LinAlgError

definition ebind :: "error + 'a \<Rightarrow> ('a \<Rightarrow> error + 'b) \<Rightarrow> error + 'b" where
  "ebind m f = (case m of Inl e \<Rightarrow> Inl e | Inr x \<Rightarrow> f x)"

section \<open>\<^verbatim>\<open>load_calibration_info\<close>: choosing the loader\<close>

text \<open>
  \<^verbatim>\<open>pathlib\<close>: a POSIX path string is split at \<^verbatim>\<open>/\<close>, empty components and \<^verbatim>\<open>.\<close>
  components are dropped, and \<^verbatim>\<open>name\<close> is the last component left (the empty string when
  there is none). \<^verbatim>\<open>suffix\<close> is \<^verbatim>\<open>name[i:]\<close> for \<^verbatim>\<open>i = name.rfind('.')\<close> when
  \<^verbatim>\<open>0 < i < len(name) - 1\<close>, and the empty string otherwise.
\<close>

fun split_on :: "char \<Rightarrow> string \<Rightarrow> string list" where
  "split_on c [] = [[]]"
| "split_on c (x # xs) =
     (if x = c then [] # split_on c xs
      else (case split_on c xs of [] \<Rightarrow> [[x]] | w # ws \<Rightarrow> (x # w) # ws))"

definition path_name :: "string \<Rightarrow> string" where
  "path_name p =
     (case filter (\<lambda>x. x \<noteq> [] \<and> x \<noteq> ''.'') (split_on CHR ''/'' p) of
        [] \<Rightarrow> []
      | q # qs \<Rightarrow> last (q # qs))"

fun rfind :: "char \<Rightarrow> string \<Rightarrow> nat option" where
  "rfind c [] = None"
| "rfind c (x # xs) =
     (case rfind c xs of
        Some i \<Rightarrow> Some (Suc i)
      | None \<Rightarrow> if x = c then Some 0 else None)"

definition name_suffix :: "string \<Rightarrow> string" where
  "name_suffix name =
     (case rfind CHR ''.'' name of
        None \<Rightarrow> []
      | Some i \<Rightarrow> if 0 < i \<and> Suc i < length name then drop i name else [])"

definition path_suffix :: "string \<Rightarrow> string" where
  "path_suffix p = name_suffix (path_name p)"

definition format_options :: "(string \<times> string) list" where
  "format_options = [(''json'', ''from_json_file''), (''hdf'', ''from_hdf5'')]"

definition suffix_error :: error where
  "suffix_error = ValueError ''The loader format could not be determined from the file suffix.''"

definition format_error :: error where
  "format_error = ValueError ''`format` must be one of [json, hdf]''"

text \<open>
  \<^verbatim>\<open>load_calibration_info(path, format)\<close>. The result is the name of the class method of
  \<^verbatim>\<open>base_class\<close> that is called with the path (reading the file is not modelled).
\<close>

definition load_calibration_info :: "string \<Rightarrow> string option \<Rightarrow> error + string" where
  "load_calibration_info path format =
     ebind
       (case format of
          None \<Rightarrow>
            (let suffix = path_suffix path in
             if suffix = ''json'' then Inr ''json''
             else if suffix \<in> set [''hdf'', ''h5''] then Inr ''hdf''
             else Inl suffix_error)
        | Some f \<Rightarrow> Inr f)
       (\<lambda>fmt. case map_of format_options fmt of
                 None \<Rightarrow> Inl format_error
               | Some m \<Rightarrow> Inr m)"

section \<open>Python values, classes and instances\<close>

text \<open>
  The values an attribute of a calibration object can hold, and the values a JSON document
  decodes to. \<open>PVec\<close> and \<open>PMat\<close> are the one- and two-dimensional float arrays of
  \<^verbatim>\<open>numpy\<close> (\<open>PMat c rows\<close> has shape \<open>(length rows, c)\<close>); \<open>PObjArr v\<close> stands for
  \<^verbatim>\<open>np.array(v)\<close> of any other value \<open>v\<close>. Floats are modelled by reals.
\<close>

datatype pyval =
    PNone
  | PStr string
  | PNum real
  | PList "pyval list"
  | PDict "(string \<times> pyval) list"
  | PVec "real list"
  | PMat nat "real list list"
  | PObjArr pyval

text \<open>
  A \<^verbatim>\<open>dataclasses.Field\<close> object: its name, the class whose body declared it (two
  \<^verbatim>\<open>Field\<close> objects are equal only when they are the same object) and its default.
  A class: its name, what \<^verbatim>\<open>cls.CAL_TYPE\<close> and \<^verbatim>\<open>cls._cal_paras\<close> evaluate to
  (\<open>None\<close> when the attribute is defined nowhere in the class or its bases),
  \<^verbatim>\<open>dataclasses.fields(cls)\<close>, and \<^verbatim>\<open>cls.__subclasses__()\<close>.
\<close>

datatype field = Field (field_name: string) (field_owner: string) (field_default: pyval)

datatype pyclass =
  PyClass (class_name: string) (CAL_TYPE: "string option") (cal_paras: "string list option")
    (dataclass_fields: "field list") (class_subclasses: "pyclass list")

datatype pyobj = PyObj (inst_class: pyclass) (inst_dict: "(string \<times> pyval) list")

text \<open>
  \<^verbatim>\<open>getattr(obj, f.name)\<close> for a field \<open>f\<close>: the instance attribute, else the class
  attribute that the dataclass keeps for the field's default.
\<close>

definition getattr :: "pyobj \<Rightarrow> field \<Rightarrow> pyval" where
  "getattr obj f =
     (case map_of (inst_dict obj) (field_name f) of
        Some v \<Rightarrow> v
      | None \<Rightarrow> field_default f)"

subsection \<open>The subclass registry\<close>

text \<open>
  \<^verbatim>\<open>_get_subclasses\<close> is a generator: for each direct subclass it first yields what the
  subclass's own \<^verbatim>\<open>_get_subclasses\<close> yields, then the subclass.
\<close>

fun get_subclasses :: "pyclass \<Rightarrow> pyclass list" where
  "get_subclasses (PyClass n t p fs subs) =
     concat (map (\<lambda>s. get_subclasses s @ [s]) subs)"

text \<open>
  \<^verbatim>\<open>next(x for x in ... if x.CAL_TYPE == cal_type)\<close>: reading \<^verbatim>\<open>CAL_TYPE\<close> of a class that
  has none raises \<^verbatim>\<open>AttributeError\<close>; an exhausted generator makes \<^verbatim>\<open>next\<close> raise
  \<^verbatim>\<open>StopIteration\<close>.
\<close>

fun next_with_cal_type :: "pyclass list \<Rightarrow> pyval \<Rightarrow> error + pyclass" where
  "next_with_cal_type [] cal_type = Inl StopIteration"
| "next_with_cal_type (x # xs) cal_type =
     (case CAL_TYPE x of
        None \<Rightarrow> Inl AttributeError
      | Some t \<Rightarrow> if PStr t = cal_type then Inr x else next_with_cal_type xs cal_type)"

text \<open>
  \<^verbatim>\<open>find_subclass_from_cal_type\<close> always searches below \<^verbatim>\<open>CalibrationInfo\<close>, whatever
  class it is called on; \<open>base\<close> is the class \<^verbatim>\<open>CalibrationInfo\<close> with the subclasses
  defined so far.
\<close>

definition find_subclass_from_cal_type :: "pyclass \<Rightarrow> pyval \<Rightarrow> error + pyclass" where
  "find_subclass_from_cal_type base cal_type =
     next_with_cal_type (get_subclasses base) cal_type"

text \<open>The subclass relation, direct or through any number of intermediate classes.\<close>

inductive proper_subclass :: "pyclass \<Rightarrow> pyclass \<Rightarrow> bool" where
  direct: "s \<in> set (class_subclasses c) \<Longrightarrow> proper_subclass s c"
| indirect: "s \<in> set (class_subclasses c) \<Longrightarrow> proper_subclass x s \<Longrightarrow> proper_subclass x c"

subsection \<open>Equality of calibration objects\<close>

definition is_ndarray :: "pyval \<Rightarrow> bool" where
  "is_ndarray v = (case v of PVec _ \<Rightarrow> True | PMat _ _ \<Rightarrow> True | PObjArr _ \<Rightarrow> True | _ \<Rightarrow> False)"

definition is_num :: "pyval \<Rightarrow> bool" where
  "is_num v = (case v of PNum _ \<Rightarrow> True | _ \<Rightarrow> False)"

definition the_num :: "pyval \<Rightarrow> real" where
  "the_num v = (case v of PNum x \<Rightarrow> x | _ \<Rightarrow> 0)"

definition is_num_list :: "pyval \<Rightarrow> bool" where
  "is_num_list v = (case v of PList xs \<Rightarrow> list_all is_num xs | _ \<Rightarrow> False)"

definition the_nums :: "pyval \<Rightarrow> real list" where
  "the_nums v = (case v of PList xs \<Rightarrow> map the_num xs | _ \<Rightarrow> [])"

text \<open>
  \<^verbatim>\<open>np.array(v)\<close> for a decoded JSON value: a list of numbers is a one-dimensional array
  (the empty list has shape \<open>(0,)\<close>), a non-empty list of equally long lists of numbers a
  two-dimensional one.
\<close>

definition np_array :: "pyval \<Rightarrow> pyval" where
  "np_array v =
     (case v of
        PList xs \<Rightarrow>
          if list_all is_num xs then PVec (map the_num xs)
          else if list_all is_num_list xs \<and>
                  list_all (\<lambda>r. length (the_nums r) = length (the_nums (hd xs))) xs
          then PMat (length (the_nums (hd xs))) (map the_nums xs)
          else PObjArr v
      | PVec xs \<Rightarrow> PVec xs
      | PMat c rows \<Rightarrow> PMat c rows
      | PObjArr w \<Rightarrow> PObjArr w
      | _ \<Rightarrow> PObjArr v)"

text \<open>\<^verbatim>\<open>ndarray.tolist()\<close>.\<close>

definition tolist :: "pyval \<Rightarrow> pyval" where
  "tolist a =
     (case a of
        PVec xs \<Rightarrow> PList (map PNum xs)
      | PMat c rows \<Rightarrow> PList (map (\<lambda>r. PList (map PNum r)) rows)
      | PObjArr v \<Rightarrow> v
      | _ \<Rightarrow> a)"

definition arr_shape :: "pyval \<Rightarrow> nat list" where
  "arr_shape a =
     (case a of
        PVec xs \<Rightarrow> [length xs]
      | PMat c rows \<Rightarrow> [length rows, c]
      | PObjArr (PList xs) \<Rightarrow> [length xs]
      | _ \<Rightarrow> [])"

definition arr_items :: "pyval \<Rightarrow> pyval list" where
  "arr_items a =
     (case a of
        PVec xs \<Rightarrow> map PNum xs
      | PMat c rows \<Rightarrow> map PNum (concat rows)
      | PObjArr (PList xs) \<Rightarrow> xs
      | PObjArr v \<Rightarrow> [v]
      | _ \<Rightarrow> [a])"

text \<open>\<^verbatim>\<open>np.array_equal(a1, a2)\<close>: equal shapes and equal elements.\<close>

definition array_equal :: "pyval \<Rightarrow> pyval \<Rightarrow> bool" where
  "array_equal a1 a2 =
     (let b1 = np_array a1; b2 = np_array a2
      in arr_shape b1 = arr_shape b2 \<and> arr_items b1 = arr_items b2)"

text \<open>
  \<^verbatim>\<open>not (a1 == a2)\<close> for \<open>a1\<close> that is no array. Against an array \<^verbatim>\<open>==\<close> compares \<open>a1\<close>
  with each element; the truth value of the resulting array is that of its only element,
  false when it has no element, and an error when it has more than one.
\<close>

definition values_differ :: "pyval \<Rightarrow> pyval \<Rightarrow> error + bool" where
  "values_differ a1 a2 =
     (if is_ndarray a2 then
        (case arr_items a2 of
           [] \<Rightarrow> Inr True
         | [x] \<Rightarrow> Inr (a1 \<noteq> x)
         | _ \<Rightarrow> Inl (ValueError ''The truth value of an array with more than one element is ambiguous.''))
      else Inr (a1 \<noteq> a2))"

text \<open>
  Two field values agree: as arrays of equal shape and elements when the first is an array;
  for a first value that is no array, by equality, where an array of one element stands for
  its element.
\<close>

definition same_value :: "pyval \<Rightarrow> pyval \<Rightarrow> bool" where
  "same_value a1 a2 =
     (if is_ndarray a1 then array_equal a1 a2
      else if is_ndarray a2 then arr_items a2 = [a1]
      else a1 = a2)"

fun compare_fields :: "pyobj \<Rightarrow> pyobj \<Rightarrow> field list \<Rightarrow> error + bool" where
  "compare_fields self other [] = Inr True"
| "compare_fields self other (f # fs) =
     (let a1 = getattr self f; a2 = getattr other f in
      ebind (if is_ndarray a1 then Inr (\<not> array_equal a1 a2) else values_differ a1 a2)
        (\<lambda>differ. if differ then Inr False else compare_fields self other fs))"

definition isinstance :: "pyobj \<Rightarrow> pyclass \<Rightarrow> bool" where
  "isinstance obj c = (inst_class obj = c \<or> inst_class obj \<in> set (get_subclasses c))"

definition comparison_error :: "pyclass \<Rightarrow> error" where
  "comparison_error c =
     ValueError (''Comparison is only defined between two '' @ class_name c @ '' object!'')"

text \<open>\<^verbatim>\<open>CalibrationInfo.__eq__(self, other)\<close>.\<close>

definition cal_eq :: "pyobj \<Rightarrow> pyobj \<Rightarrow> error + bool" where
  "cal_eq self other =
     (if \<not> isinstance other (inst_class self) then Inl (comparison_error (inst_class self))
      else if dataclass_fields (inst_class self) \<noteq> dataclass_fields (inst_class other)
      then Inr False
      else (case (CAL_TYPE (inst_class self), CAL_TYPE (inst_class other)) of
              (Some t1, Some t2) \<Rightarrow>
                if \<not> t1 = t2 then Inr False
                else compare_fields self other (dataclass_fields (inst_class self))
            | _ \<Rightarrow> Inl AttributeError))"

text \<open>
  The operator \<^verbatim>\<open>self == other\<close> between two calibration objects whose classes inherit
  \<^verbatim>\<open>__eq__\<close> from \<^verbatim>\<open>CalibrationInfo\<close> (a dataclass declared with \<^verbatim>\<open>eq=False\<close>). When the
  class of the right operand is a proper subclass of the class of the left operand, Python
  calls the \<^verbatim>\<open>__eq__\<close> of the right operand first, with the operands exchanged; otherwise
  that of the left operand. \<^verbatim>\<open>CalibrationInfo.__eq__\<close> never returns \<^verbatim>\<open>NotImplemented\<close>,
  so the first call decides.
\<close>

definition py_eq :: "pyobj \<Rightarrow> pyobj \<Rightarrow> error + bool" where
  "py_eq self other =
     (if inst_class other \<noteq> inst_class self \<and>
         inst_class other \<in> set (get_subclasses (inst_class self))
      then cal_eq other self
      else cal_eq self other)"

section \<open>Serialisation\<close>

subsection \<open>Dictionaries and construction\<close>

text \<open>
  A \<^verbatim>\<open>dict\<close> with string keys is an association list; \<^verbatim>\<open>d[k] = v\<close> replaces the entry of
  an existing key and appends a new one, \<^verbatim>\<open>d.pop(k)\<close> removes it.
\<close>

definition dict_set :: "(string \<times> pyval) list \<Rightarrow> string \<Rightarrow> pyval \<Rightarrow> (string \<times> pyval) list" where
  "dict_set d k v =
     (if k \<in> set (map fst d) then map (\<lambda>(k', v'). if k' = k then (k', v) else (k', v')) d
      else d @ [(k, v)])"

definition dict_del :: "(string \<times> pyval) list \<Rightarrow> string \<Rightarrow> (string \<times> pyval) list" where
  "dict_del d k = filter (\<lambda>(k', v'). k' \<noteq> k) d"

text \<open>
  \<^verbatim>\<open>cls(**kwargs)\<close> for a dataclass: a keyword that names no field is a \<^verbatim>\<open>TypeError\<close>;
  a field without a keyword takes its default (every field of a subclass of
  \<^verbatim>\<open>CalibrationInfo\<close> has one, since the fields of the base class have).
\<close>

definition construct :: "pyclass \<Rightarrow> (string \<times> pyval) list \<Rightarrow> error + pyobj" where
  "construct cls kwargs =
     (if list_all (\<lambda>k. k \<in> set (map field_name (dataclass_fields cls))) (map fst kwargs)
      then Inr (PyObj cls
             (map (\<lambda>f. (field_name f,
                     (case map_of kwargs (field_name f) of
                        Some v \<Rightarrow> v
                      | None \<Rightarrow> field_default f)))
                (dataclass_fields cls)))
      else Inl TypeError)"

subsection \<open>JSON\<close>

text \<open>\<^verbatim>\<open>dataclasses.asdict(self)\<close>: one entry per field, in field order.\<close>

definition asdict :: "pyobj \<Rightarrow> (string \<times> pyval) list" where
  "asdict self = map (\<lambda>f. (field_name f, getattr self f)) (dataclass_fields (inst_class self))"

definition to_list_dict :: "pyobj \<Rightarrow> error + (string \<times> pyval) list" where
  "to_list_dict self =
     (case CAL_TYPE (inst_class self) of
        None \<Rightarrow> Inl AttributeError
      | Some t \<Rightarrow> Inr (dict_set (asdict self) ''cal_type'' (PStr t)))"

text \<open>
  \<^verbatim>\<open>json.dumps(..., cls=NumpyEncoder)\<close> writes an array as its \<^verbatim>\<open>tolist()\<close>. The JSON text
  is represented by the value that \<^verbatim>\<open>json.loads\<close> decodes it to: \<^verbatim>\<open>None\<close>, strings,
  numbers, lists and dictionaries are written and read back unchanged.
\<close>

fun json_encode :: "pyval \<Rightarrow> pyval" where
  "json_encode (PList xs) = PList (map json_encode xs)"
| "json_encode (PDict kvs) = PDict (map (\<lambda>kv. (fst kv, json_encode (snd kv))) kvs)"
| "json_encode (PVec xs) = PList (map PNum xs)"
| "json_encode (PMat c rows) = PList (map (\<lambda>r. PList (map PNum r)) rows)"
| "json_encode (PObjArr v) = json_encode v"
| "json_encode v = v"

definition to_json :: "pyobj \<Rightarrow> error + pyval" where
  "to_json self = ebind (to_list_dict self) (\<lambda>data_dict. Inr (json_encode (PDict data_dict)))"

text \<open>\<^verbatim>\<open>for k in cls._cal_paras: list_dict[k] = np.array(list_dict[k])\<close>.\<close>

fun arrays_from_lists ::
  "string list \<Rightarrow> (string \<times> pyval) list \<Rightarrow> error + (string \<times> pyval) list" where
  "arrays_from_lists [] list_dict = Inr list_dict"
| "arrays_from_lists (k # ks) list_dict =
     (case map_of list_dict k of
        None \<Rightarrow> Inl (KeyError k)
      | Some v \<Rightarrow> arrays_from_lists ks (dict_set list_dict k (np_array v)))"

definition from_list_dict :: "pyclass \<Rightarrow> (string \<times> pyval) list \<Rightarrow> error + pyobj" where
  "from_list_dict cls list_dict =
     (case cal_paras cls of
        None \<Rightarrow> Inl AttributeError
      | Some ks \<Rightarrow> ebind (arrays_from_lists ks list_dict) (construct cls))"

text \<open>
  \<^verbatim>\<open>from_json\<close>, on the decoded document. \<^verbatim>\<open>raw_json.pop("cal_type")\<close> needs a dictionary
  that has the key.
\<close>

definition from_json :: "pyclass \<Rightarrow> pyval \<Rightarrow> error + pyobj" where
  "from_json base raw_json =
     (case raw_json of
        PDict d \<Rightarrow>
          (case map_of d ''cal_type'' of
             None \<Rightarrow> Inl (KeyError ''cal_type'')
           | Some t \<Rightarrow>
               ebind (find_subclass_from_cal_type base t)
                 (\<lambda>subclass. from_list_dict subclass (dict_del d ''cal_type'')))
      | PList xs \<Rightarrow> Inl TypeError
      | _ \<Rightarrow> Inl AttributeError)"

subsection \<open>HDF5\<close>

text \<open>
  An HDF5 file is the association list of its named datasets. \<^verbatim>\<open>create_dataset\<close> and
  \<^verbatim>\<open>hdf[name] = value\<close> refuse a name that exists. A list is stored as the array it
  converts to; a dictionary cannot be stored.
\<close>

definition hdf_create :: "(string \<times> pyval) list \<Rightarrow> string \<Rightarrow> pyval \<Rightarrow> error + (string \<times> pyval) list" where
  "hdf_create hdf k v =
     (if k \<in> set (map fst hdf) then Inl (ValueError ''Unable to create dataset (name already exists)'')
      else (case v of
              PDict _ \<Rightarrow> Inl TypeError
            | PNone \<Rightarrow> Inl TypeError
            | PList _ \<Rightarrow> Inr (hdf @ [(k, np_array v)])
            | _ \<Rightarrow> Inr (hdf @ [(k, v)])))"

text \<open>The truth value of \<^verbatim>\<open>if value:\<close>.\<close>

definition truthy :: "pyval \<Rightarrow> error + bool" where
  "truthy v =
     (case v of
        PNone \<Rightarrow> Inr False
      | PStr s \<Rightarrow> Inr (s \<noteq> [])
      | PNum x \<Rightarrow> Inr (x \<noteq> 0)
      | PList xs \<Rightarrow> Inr (xs \<noteq> [])
      | PDict kvs \<Rightarrow> Inr (kvs \<noteq> [])
      | _ \<Rightarrow>
         (case arr_items v of
            [] \<Rightarrow> Inr False
          | [x] \<Rightarrow> Inr (x \<noteq> PNum 0 \<and> x \<noteq> PNone \<and> x \<noteq> PStr [])
          | _ \<Rightarrow> Inl (ValueError ''The truth value of an array with more than one element is ambiguous.'')))"

text \<open>The loop of \<^verbatim>\<open>to_hdf5\<close> over \<^verbatim>\<open>fields(self)\<close>; \<^verbatim>\<open>value.tolist()\<close> needs an array.\<close>

fun write_fields :: "pyobj \<Rightarrow> field list \<Rightarrow> (string \<times> pyval) list \<Rightarrow> error + (string \<times> pyval) list" where
  "write_fields self [] hdf = Inr hdf"
| "write_fields self (k # ks) hdf =
     (let val = getattr self k in
      case cal_paras (inst_class self) of
        None \<Rightarrow> Inl AttributeError
      | Some paras \<Rightarrow>
          ebind
            (if field_name k \<in> set paras then
               (if is_ndarray val then hdf_create hdf (field_name k) (tolist val)
                else Inl AttributeError)
             else
               ebind (truthy val)
                 (\<lambda>b. if b then hdf_create hdf (field_name k) val else Inr hdf))
            (write_fields self ks))"

definition to_hdf5 :: "pyobj \<Rightarrow> error + (string \<times> pyval) list" where
  "to_hdf5 self =
     ebind (write_fields self (dataclass_fields (inst_class self)) [])
       (\<lambda>hdf. case CAL_TYPE (inst_class self) of
                 None \<Rightarrow> Inl AttributeError
               | Some t \<Rightarrow> hdf_create hdf ''cal_type'' (PStr t))"

text \<open>
  The loop of \<^verbatim>\<open>from_hdf5\<close> over \<^verbatim>\<open>fields(subcls)\<close>. \<^verbatim>\<open>hdf.get(name)\<close> is \<^verbatim>\<open>None\<close> for a
  missing name, and a dataset that is there is true.
\<close>

fun read_fields :: "pyclass \<Rightarrow> field list \<Rightarrow> (string \<times> pyval) list \<Rightarrow> (string \<times> pyval) list \<Rightarrow>
    error + (string \<times> pyval) list" where
  "read_fields subcls [] hdf vals = Inr vals"
| "read_fields subcls (k # ks) hdf vals =
     (let tmp = map_of hdf (field_name k) in
      case cal_paras subcls of
        None \<Rightarrow> Inl AttributeError
      | Some paras \<Rightarrow>
          read_fields subcls ks hdf
            (dict_set vals (field_name k)
               (if field_name k \<in> set paras
                then np_array (case tmp of None \<Rightarrow> PNone | Some v \<Rightarrow> v)
                else (case tmp of Some v \<Rightarrow> v | None \<Rightarrow> PNone))))"

definition from_hdf5 :: "pyclass \<Rightarrow> (string \<times> pyval) list \<Rightarrow> error + pyobj" where
  "from_hdf5 base hdf =
     (case map_of hdf ''cal_type'' of
        None \<Rightarrow> Inl (KeyError ''cal_type'')
      | Some t \<Rightarrow>
          ebind (find_subclass_from_cal_type base t)
            (\<lambda>subcls. ebind (read_fields subcls (dataclass_fields subcls) hdf [])
               (construct subcls)))"

section \<open>The classes of the package\<close>

text \<open>
  \<^verbatim>\<open>CalibrationInfo\<close>: five optional fields with default \<^verbatim>\<open>None\<close>; \<^verbatim>\<open>CAL_TYPE\<close> and
  \<^verbatim>\<open>_cal_paras\<close> are only annotated. The argument is the list of its subclasses.
\<close>

definition base_fields :: "field list" where
  "base_fields =
     map (\<lambda>n. Field n ''CalibrationInfo'' PNone)
       [''acc_unit'', ''gyr_unit'', ''from_acc_unit'', ''from_gyr_unit'', ''comment'']"

definition CalibrationInfo_cls :: "pyclass list \<Rightarrow> pyclass" where
  "CalibrationInfo_cls subs = PyClass ''CalibrationInfo'' None None base_fields subs"

text \<open>
  Modelled from the spec: the class \<^verbatim>\<open>FerrarisCalibrationInfo\<close>, whose module
  \<^verbatim>\<open>imucal/ferraris_calibration_info.py\<close> is not among the sources. Its parameter fields are
  the seven of the spec's table, unset (\<^verbatim>\<open>None\<close>) by default as
  \<^verbatim>\<open>compute_calibration_matrix\<close> creates it without arguments; its tag is the
  \<^verbatim>\<open>'Ferraris'\<close> of the docstring of \<^verbatim>\<open>CalibrationInfo\<close>.
\<close>

definition ferraris_paras :: "string list" where
  "ferraris_paras = [''b_a'', ''K_a'', ''R_a'', ''b_g'', ''K_g'', ''R_g'', ''K_ga'']"

definition ferraris_fields :: "field list" where
  "ferraris_fields = base_fields @ map (\<lambda>n. Field n ''FerrarisCalibrationInfo'' PNone) ferraris_paras"

definition FerrarisCalibrationInfo_cls :: "pyclass list \<Rightarrow> pyclass" where
  "FerrarisCalibrationInfo_cls subs =
     PyClass ''FerrarisCalibrationInfo'' (Some ''Ferraris'') (Some ferraris_paras) ferraris_fields subs"

text \<open>
  Two classes a user of the package may define: a calibration type of its own below
  \<^verbatim>\<open>FerrarisCalibrationInfo\<close>, with one more parameter, and
  \<^verbatim>\<open>class LabFerraris(FerrarisCalibrationInfo): pass\<close>, which inherits everything.
\<close>

definition Turntable_cls :: pyclass where
  "Turntable_cls =
     PyClass ''TurntableCalibrationInfo'' (Some ''Turntable'') (Some (ferraris_paras @ [''T_g'']))
       (ferraris_fields @ [Field ''T_g'' ''TurntableCalibrationInfo'' PNone]) []"

definition LabFerraris_cls :: pyclass where
  "LabFerraris_cls =
     PyClass ''LabFerraris'' (Some ''Ferraris'') (Some ferraris_paras) ferraris_fields []"

definition identity3 :: pyval where
  "identity3 = PMat 3 [[1, 0, 0], [0, 1, 0], [0, 0, 1]]"

text \<open>A calibration object of the given class, with every Ferraris parameter set.\<close>

definition example_calibration :: "pyclass \<Rightarrow> pyval \<Rightarrow> pyobj" where
  "example_calibration cls comment =
     PyObj cls
       [(''acc_unit'', PStr ''m/s^2''), (''gyr_unit'', PStr ''deg/s''),
        (''from_acc_unit'', PNone), (''from_gyr_unit'', PNone), (''comment'', comment),
        (''b_a'', PVec [1/2, 0, -3]), (''K_a'', identity3), (''R_a'', identity3),
        (''b_g'', PVec [0, 0, 0]), (''K_g'', identity3), (''R_g'', identity3),
        (''K_ga'', PMat 3 [[0, 0, 0], [0, 0, 0], [0, 0, 0]])]"

subsection \<open>Valid records\<close>

text \<open>
  A parameter array is a one-dimensional array or a two-dimensional one with at least one
  row (all rows as long as the shape says); an optional metadata field holds \<^verbatim>\<open>None\<close> or
  a string. A record is valid when its class names its parameters among its fields, no two
  fields share a name, none is called \<^verbatim>\<open>cal_type\<close>, every parameter holds an array and
  every other field an optional string.
\<close>

definition valid_array :: "pyval \<Rightarrow> bool" where
  "valid_array v =
     (case v of
        PVec xs \<Rightarrow> True
      | PMat c rows \<Rightarrow> rows \<noteq> [] \<and> list_all (\<lambda>r. length r = c) rows
      | _ \<Rightarrow> False)"

definition optional_str :: "pyval \<Rightarrow> bool" where
  "optional_str v = (case v of PNone \<Rightarrow> True | PStr s \<Rightarrow> True | _ \<Rightarrow> False)"

definition valid_record :: "pyobj \<Rightarrow> bool" where
  "valid_record r =
     (case cal_paras (inst_class r) of
        None \<Rightarrow> False
      | Some paras \<Rightarrow>
          distinct (map field_name (dataclass_fields (inst_class r))) \<and>
          ''cal_type'' \<notin> set (map field_name (dataclass_fields (inst_class r))) \<and>
          list_all (\<lambda>k. k \<in> set (map field_name (dataclass_fields (inst_class r)))) paras \<and>
          list_all (\<lambda>f. if field_name f \<in> set paras then valid_array (getattr r f)
                         else optional_str (getattr r f))
            (dataclass_fields (inst_class r)))"

text \<open>The fields that \<^verbatim>\<open>to_hdf5\<close> writes for a valid record: the parameters, and the
  metadata that is neither \<^verbatim>\<open>None\<close> nor the empty string.\<close>

definition written :: "pyobj \<Rightarrow> string list \<Rightarrow> field \<Rightarrow> bool" where
  "written r paras f =
     (field_name f \<in> set paras \<or> (getattr r f \<noteq> PNone \<and> getattr r f \<noteq> PStr []))"

section \<open>Arrays of floats\<close>

text \<open>
  A float of a computed array is a real number or not finite (\<^verbatim>\<open>nan\<close>, \<^verbatim>\<open>inf\<close> or
  \<^verbatim>\<open>-inf\<close>, which \<^verbatim>\<open>numpy\<close> produces with a warning and without raising); rounding is not
  modelled. Adding, subtracting or multiplying something not finite gives something not
  finite, as does dividing by zero and the square root of a negative number.
\<close>

datatype npfloat = Fin real | NonFin

definition fadd :: "npfloat \<Rightarrow> npfloat \<Rightarrow> npfloat" where
  "fadd a b = (case (a, b) of (Fin x, Fin y) \<Rightarrow> Fin (x + y) | _ \<Rightarrow> NonFin)"

definition fsub :: "npfloat \<Rightarrow> npfloat \<Rightarrow> npfloat" where
  "fsub a b = (case (a, b) of (Fin x, Fin y) \<Rightarrow> Fin (x - y) | _ \<Rightarrow> NonFin)"

definition fmul :: "npfloat \<Rightarrow> npfloat \<Rightarrow> npfloat" where
  "fmul a b = (case (a, b) of (Fin x, Fin y) \<Rightarrow> Fin (x * y) | _ \<Rightarrow> NonFin)"

text \<open>An element of an array divided by, or multiplied with, a Python float.\<close>

definition fdiv :: "npfloat \<Rightarrow> real \<Rightarrow> npfloat" where
  "fdiv a y = (case a of Fin x \<Rightarrow> if y = 0 then NonFin else Fin (x / y) | NonFin \<Rightarrow> NonFin)"

definition fscale :: "real \<Rightarrow> npfloat \<Rightarrow> npfloat" where
  "fscale c a = (case a of Fin x \<Rightarrow> Fin (c * x) | NonFin \<Rightarrow> NonFin)"

definition fsqrt :: "npfloat \<Rightarrow> npfloat" where
  "fsqrt a = (case a of Fin x \<Rightarrow> if x < 0 then NonFin else Fin (sqrt x) | NonFin \<Rightarrow> NonFin)"

text \<open>
  Arrays of shape \<open>(3,)\<close> and \<open>(3, 3)\<close>, the latter as the triple of its rows. A segment
  of \<open>n\<close> samples, shape \<open>(n, 3)\<close>, is the list of its rows.
\<close>

type_synonym 'a vec3 = "'a \<times> 'a \<times> 'a"
type_synonym 'a mat3 = "'a vec3 vec3"

definition vmap :: "('a \<Rightarrow> 'b) \<Rightarrow> 'a vec3 \<Rightarrow> 'b vec3" where
  "vmap f v = (case v of (a, b, c) \<Rightarrow> (f a, f b, f c))"

definition vzip :: "('a \<Rightarrow> 'b \<Rightarrow> 'c) \<Rightarrow> 'a vec3 \<Rightarrow> 'b vec3 \<Rightarrow> 'c vec3" where
  "vzip f u v = (case (u, v) of ((a, b, c), (x, y, z)) \<Rightarrow> (f a x, f b y, f c z))"

definition mmap :: "('a \<Rightarrow> 'b) \<Rightarrow> 'a mat3 \<Rightarrow> 'b mat3" where
  "mmap f m = vmap (vmap f) m"

definition mzip :: "('a \<Rightarrow> 'b \<Rightarrow> 'c) \<Rightarrow> 'a mat3 \<Rightarrow> 'b mat3 \<Rightarrow> 'c mat3" where
  "mzip f m n = vzip (vzip f) m n"

text \<open>\<^verbatim>\<open>m.T\<close>, \<^verbatim>\<open>np.diag\<close> of a matrix and of a vector, and \<^verbatim>\<open>@\<close>.\<close>

definition mat_T :: "'a mat3 \<Rightarrow> 'a mat3" where
  "mat_T m = (case m of ((a, b, c), (d, e, f), (g, h, i)) \<Rightarrow> ((a, d, g), (b, e, h), (c, f, i)))"

definition diag_of :: "'a mat3 \<Rightarrow> 'a vec3" where
  "diag_of m = (case m of ((a, b, c), (d, e, f), (g, h, i)) \<Rightarrow> (a, e, i))"

definition np_diag :: "npfloat vec3 \<Rightarrow> npfloat mat3" where
  "np_diag v =
     (case v of (a, b, c) \<Rightarrow> ((a, Fin 0, Fin 0), (Fin 0, b, Fin 0), (Fin 0, Fin 0, c)))"

definition dot :: "npfloat vec3 \<Rightarrow> npfloat vec3 \<Rightarrow> npfloat" where
  "dot u v =
     (case (u, v) of ((a, b, c), (x, y, z)) \<Rightarrow> fadd (fadd (fmul a x) (fmul b y)) (fmul c z))"

definition mat_vec :: "npfloat mat3 \<Rightarrow> npfloat vec3 \<Rightarrow> npfloat vec3" where
  "mat_vec m v = vmap (\<lambda>row. dot row v) m"

definition mat_mul :: "npfloat mat3 \<Rightarrow> npfloat mat3 \<Rightarrow> npfloat mat3" where
  "mat_mul m n = vmap (\<lambda>row. vmap (\<lambda>col. dot row col) (mat_T n)) m"

text \<open>
  \<^verbatim>\<open>np.mean(segment, axis=0)\<close>: the mean of each column. For a segment without samples the
  result is \<^verbatim>\<open>nan\<close> in each column; for \<^verbatim>\<open>None\<close> in place of the segment \<^verbatim>\<open>numpy\<close> raises
  (axis 0 is out of bounds for the zero-dimensional array made of \<^verbatim>\<open>None\<close>).
\<close>

definition column_sums :: "real vec3 list \<Rightarrow> real vec3" where
  "column_sums xs =
     (sum_list (map fst xs), sum_list (map (\<lambda>s. fst (snd s)) xs),
      sum_list (map (\<lambda>s. snd (snd s)) xs))"

definition mean_axis0 :: "real vec3 list \<Rightarrow> npfloat vec3" where
  "mean_axis0 xs =
     (if xs = [] then (NonFin, NonFin, NonFin)
      else vmap (\<lambda>s. Fin (s / real (length xs))) (column_sums xs))"

definition np_mean :: "real vec3 list option \<Rightarrow> error + npfloat vec3" where
  "np_mean seg = (case seg of None \<Rightarrow> Inl AxisError | Some xs \<Rightarrow> Inr (mean_axis0 xs))"

text \<open>\<^verbatim>\<open>np.sum(samples, axis=0)\<close>; the sum of no samples is zero.\<close>

definition sum_axis0 :: "npfloat vec3 list \<Rightarrow> npfloat vec3" where
  "sum_axis0 xs = foldr (vzip fadd) xs (Fin 0, Fin 0, Fin 0)"

text \<open>
  \<^verbatim>\<open>np.vstack\<close> of the six static gyroscope segments: their samples one after the other.
  \<^verbatim>\<open>None\<close> among arrays of shape \<open>(n, 3)\<close> is a \<^verbatim>\<open>ValueError\<close> (the dimensions do not
  match); six times \<^verbatim>\<open>None\<close> stack to an array of objects, whose mean is a \<^verbatim>\<open>TypeError\<close>.
\<close>

definition vstack_mean :: "real vec3 list option list \<Rightarrow> error + npfloat vec3" where
  "vstack_mean segs =
     (if list_all (\<lambda>s. s = None) segs then Inl TypeError
      else if list_ex (\<lambda>s. s = None) segs
      then Inl (ValueError ''all the input array dimensions except for the concatenation axis must match exactly'')
      else Inr (mean_axis0 (concat (map (\<lambda>s. case s of None \<Rightarrow> [] | Some xs \<Rightarrow> xs) segs))))"

subsection \<open>\<^verbatim>\<open>numpy.linalg.inv\<close>\<close>

definition the_real :: "npfloat \<Rightarrow> real" where
  "the_real a = (case a of Fin x \<Rightarrow> x | NonFin \<Rightarrow> 0)"

definition is_fin :: "npfloat \<Rightarrow> bool" where
  "is_fin a = (case a of Fin x \<Rightarrow> True | NonFin \<Rightarrow> False)"

definition all3 :: "('a \<Rightarrow> bool) \<Rightarrow> 'a vec3 \<Rightarrow> bool" where
  "all3 p v = (case v of (a, b, c) \<Rightarrow> p a \<and> p b \<and> p c)"

definition det3 :: "real mat3 \<Rightarrow> real" where
  "det3 m =
     (case m of ((a, b, c), (d, e, f), (g, h, i)) \<Rightarrow>
        a * (e * i - f * h) - b * (d * i - f * g) + c * (d * h - e * g))"

definition inverse3 :: "real mat3 \<Rightarrow> real mat3" where
  "inverse3 m =
     (case m of ((a, b, c), (d, e, f), (g, h, i)) \<Rightarrow>
        mmap (\<lambda>x. x / det3 m)
          ((e * i - f * h, c * h - b * i, b * f - c * e),
           (f * g - d * i, a * i - c * g, c * d - a * f),
           (d * h - e * g, b * g - a * h, a * e - b * d)))"

text \<open>
  The inverse of a matrix of finite entries is the exact inverse; a singular matrix raises
  \<^verbatim>\<open>LinAlgError\<close>. What LAPACK makes of a matrix with an entry that is not finite is not
  fixed by \<^verbatim>\<open>numpy\<close>; it is the parameter \<open>lapack\<close> of the model, and every result below
  holds for each choice of it.
\<close>

definition np_inv :: "(npfloat mat3 \<Rightarrow> error + npfloat mat3) \<Rightarrow> npfloat mat3 \<Rightarrow> error + npfloat mat3" where
  "np_inv lapack m =
     (if all3 (all3 is_fin) m then
        (if det3 (mmap the_real m) = 0 then Inl LinAlgError
         else Inr (mmap Fin (inverse3 (mmap the_real m))))
      else lapack m)"

section \<open>The Ferraris calibration\<close>

subsection \<open>The calibration parameters and their transforms\<close>

text \<open>
  The seven parameters of a \<^verbatim>\<open>FerrarisCalibrationInfo\<close>, each \<^verbatim>\<open>None\<close> until it is set.
  (The five metadata fields stay \<^verbatim>\<open>None\<close> during the computation and are left out.)
\<close>

record FerrarisCalibrationInfo =
  b_a :: "npfloat vec3 option"
  K_a :: "npfloat mat3 option"
  R_a :: "npfloat mat3 option"
  b_g :: "npfloat vec3 option"
  K_g :: "npfloat mat3 option"
  R_g :: "npfloat mat3 option"
  K_ga :: "npfloat mat3 option"

definition new_calibration_info :: FerrarisCalibrationInfo where
  "new_calibration_info =
     \<lparr>b_a = None, K_a = None, R_a = None, b_g = None, K_g = None, R_g = None, K_ga = None\<rparr>"

text \<open>
  Modelled from the spec: the method \<^verbatim>\<open>calibrate_acc\<close> of \<^verbatim>\<open>FerrarisCalibrationInfo\<close>,
  whose module is not among the sources. Section 4.3 of the spec:
  \<^verbatim>\<open>true_acc = R_a^-1 . K_a^-1 . (acc_raw - b_a)\<close>, applied per sample. The inverses are
  \<^verbatim>\<open>numpy.linalg.inv\<close>, which raises \<^verbatim>\<open>LinAlgError\<close> for \<^verbatim>\<open>None\<close>; arithmetic with
  \<^verbatim>\<open>None\<close> is a \<^verbatim>\<open>TypeError\<close>.
\<close>

definition calibrate_acc ::
  "(npfloat mat3 \<Rightarrow> error + npfloat mat3) \<Rightarrow> FerrarisCalibrationInfo \<Rightarrow> real vec3 list option \<Rightarrow>
     error + npfloat vec3 list" where
  "calibrate_acc lapack cal acc =
     (case R_a cal of
        None \<Rightarrow> Inl LinAlgError
      | Some R \<Rightarrow>
          ebind (np_inv lapack R) (\<lambda>R_inv.
            case K_a cal of
              None \<Rightarrow> Inl LinAlgError
            | Some K \<Rightarrow>
                ebind (np_inv lapack K) (\<lambda>K_inv.
                  case (acc, b_a cal) of
                    (Some samples, Some b) \<Rightarrow>
                      Inr (map (\<lambda>s. mat_vec (mat_mul R_inv K_inv) (vzip fsub (vmap Fin s) b)) samples)
                  | _ \<Rightarrow> Inl TypeError)))"

text \<open>
  Modelled from the spec: the helper \<^verbatim>\<open>_calibrate_gyro_offsets\<close> of the same class.
  Section 4.3 of the spec: \<^verbatim>\<open>gyro_offset_free = gyro_raw - b_g - K_ga . acc_calibrated\<close>,
  sample by sample, for an acceleration signal of the same time window (here: of the same
  number of samples; another number is reported as the \<^verbatim>\<open>ValueError\<close> of mismatched
  shapes).
\<close>

definition calibrate_gyro_offsets ::
  "FerrarisCalibrationInfo \<Rightarrow> real vec3 list option \<Rightarrow> npfloat vec3 list \<Rightarrow> error + npfloat vec3 list" where
  "calibrate_gyro_offsets cal gyro calibrated_acc =
     (case (gyro, b_g cal, K_ga cal) of
        (Some samples, Some b, Some K) \<Rightarrow>
          if length samples \<noteq> length calibrated_acc
          then Inl (ValueError ''operands could not be broadcast together'')
          else Inr (map2 (\<lambda>g a. vzip fsub (vzip fsub (vmap Fin g) b) (mat_vec K a))
                      samples calibrated_acc)
      | _ \<Rightarrow> Inl TypeError)"

subsection \<open>\<^verbatim>\<open>FerrarisCalibration\<close>\<close>

text \<open>
  The eighteen segments (\<^verbatim>\<open>None\<close> for a label that was not given) and the three
  constants of the computation.
\<close>

record FerrarisCalibration =
  acc_x_p :: "real vec3 list option"
  acc_x_a :: "real vec3 list option"
  acc_y_p :: "real vec3 list option"
  acc_y_a :: "real vec3 list option"
  acc_z_p :: "real vec3 list option"
  acc_z_a :: "real vec3 list option"
  acc_x_rot :: "real vec3 list option"
  acc_y_rot :: "real vec3 list option"
  acc_z_rot :: "real vec3 list option"
  gyr_x_p :: "real vec3 list option"
  gyr_x_a :: "real vec3 list option"
  gyr_y_p :: "real vec3 list option"
  gyr_y_a :: "real vec3 list option"
  gyr_z_p :: "real vec3 list option"
  gyr_z_a :: "real vec3 list option"
  gyr_x_rot :: "real vec3 list option"
  gyr_y_rot :: "real vec3 list option"
  gyr_z_rot :: "real vec3 list option"
  sampling_rate :: real
  grav :: real
  expected_angle :: real

definition EXPECTED_ANGLE :: real where
  "EXPECTED_ANGLE = 360"

definition DEFAULT_GRAV :: real where
  "DEFAULT_GRAV = 981 / 100"

text \<open>\<^verbatim>\<open>value or default\<close> for an optional float: \<^verbatim>\<open>None\<close> and \<^verbatim>\<open>0.0\<close> are false.\<close>

definition or_default :: "real option \<Rightarrow> real \<Rightarrow> real" where
  "or_default v d = (case v of None \<Rightarrow> d | Some x \<Rightarrow> if x = 0 then d else x)"

text \<open>\<^verbatim>\<open>FerrarisCalibration.__init__\<close>; \<open>kwargs\<close> maps the names of the given segments to them.\<close>

definition FerrarisCalibration_init ::
  "real \<Rightarrow> real option \<Rightarrow> real option \<Rightarrow> (string \<Rightarrow> real vec3 list option) \<Rightarrow> FerrarisCalibration" where
  "FerrarisCalibration_init rate g angle kwargs =
     \<lparr>acc_x_p = kwargs ''acc_x_p'', acc_x_a = kwargs ''acc_x_a'',
      acc_y_p = kwargs ''acc_y_p'', acc_y_a = kwargs ''acc_y_a'',
      acc_z_p = kwargs ''acc_z_p'', acc_z_a = kwargs ''acc_z_a'',
      acc_x_rot = kwargs ''acc_x_rot'', acc_y_rot = kwargs ''acc_y_rot'',
      acc_z_rot = kwargs ''acc_z_rot'',
      gyr_x_p = kwargs ''gyr_x_p'', gyr_x_a = kwargs ''gyr_x_a'',
      gyr_y_p = kwargs ''gyr_y_p'', gyr_y_a = kwargs ''gyr_y_a'',
      gyr_z_p = kwargs ''gyr_z_p'', gyr_z_a = kwargs ''gyr_z_a'',
      gyr_x_rot = kwargs ''gyr_x_rot'', gyr_y_rot = kwargs ''gyr_y_rot'',
      gyr_z_rot = kwargs ''gyr_z_rot'',
      sampling_rate = rate,
      grav = or_default g DEFAULT_GRAV,
      expected_angle = or_default angle EXPECTED_ANGLE\<rparr>"

subsection \<open>\<^verbatim>\<open>compute_calibration_matrix\<close>\<close>

text \<open>
  The method in its three parts. First the part under the comment
  \<^verbatim>\<open>Compute Acceleration Matrix\<close> (lines 123 to 164). \<^verbatim>\<open>1 / (4 * self.grav ** 2)\<close> is a
  division of Python floats, which raises for a zero divisor.
\<close>

definition compute_acc_matrix ::
  "(npfloat mat3 \<Rightarrow> error + npfloat mat3) \<Rightarrow> FerrarisCalibration \<Rightarrow> FerrarisCalibrationInfo \<Rightarrow>
     error + FerrarisCalibrationInfo" where
  "compute_acc_matrix lapack self cal_mat =
     ebind (np_mean (acc_x_p self)) (\<lambda>m_x_p.
     ebind (np_mean (acc_y_p self)) (\<lambda>m_y_p.
     ebind (np_mean (acc_z_p self)) (\<lambda>m_z_p.
     ebind (np_mean (acc_x_a self)) (\<lambda>m_x_a.
     ebind (np_mean (acc_y_a self)) (\<lambda>m_y_a.
     ebind (np_mean (acc_z_a self)) (\<lambda>m_z_a.
       let U_a_p = mat_T (m_x_p, m_y_p, m_z_p);
           U_a_n = mat_T (m_x_a, m_y_a, m_z_a);
           U_a_s = mzip fadd U_a_p U_a_n;
           B_a = mmap (\<lambda>x. fdiv x 2) U_a_s;
           cal_mat1 = cal_mat\<lparr>b_a := Some (diag_of B_a)\<rparr>;
           U_a_d = mzip fsub U_a_p U_a_n
       in if grav self = 0 then Inl ZeroDivisionError
          else
            let k_a_sq = vmap (fscale (1 / (4 * (grav self)\<^sup>2)))
                           (diag_of (mat_mul U_a_d (mat_T U_a_d)));
                K_a' = np_diag (vmap fsqrt k_a_sq);
                cal_mat2 = cal_mat1\<lparr>K_a := Some K_a'\<rparr>
            in ebind (np_inv lapack K_a') (\<lambda>K_a_inv.
                 Inr (cal_mat2\<lparr>R_a :=
                   Some (mmap (\<lambda>x. fdiv x (2 * grav self)) (mat_mul K_a_inv U_a_d))\<rparr>))))))))"

text \<open>The gyroscope bias and the acceleration sensitivity (lines 166 to 200).\<close>

definition compute_gyro_offsets ::
  "FerrarisCalibration \<Rightarrow> FerrarisCalibrationInfo \<Rightarrow> error + FerrarisCalibrationInfo" where
  "compute_gyro_offsets self cal_mat =
     ebind (vstack_mean [gyr_x_p self, gyr_x_a self, gyr_y_p self, gyr_y_a self,
                         gyr_z_p self, gyr_z_a self]) (\<lambda>b_g'.
       let cal_mat1 = cal_mat\<lparr>b_g := Some b_g'\<rparr> in
       ebind (np_mean (gyr_x_p self)) (\<lambda>m_x_p.
       ebind (np_mean (gyr_y_p self)) (\<lambda>m_y_p.
       ebind (np_mean (gyr_z_p self)) (\<lambda>m_z_p.
       ebind (np_mean (gyr_x_a self)) (\<lambda>m_x_a.
       ebind (np_mean (gyr_y_a self)) (\<lambda>m_y_a.
       ebind (np_mean (gyr_z_a self)) (\<lambda>m_z_a.
         let U_g_p = mat_T (m_x_p, m_y_p, m_z_p);
             U_g_a = mat_T (m_x_a, m_y_a, m_z_a)
         in Inr (cal_mat1\<lparr>K_ga :=
              Some (mmap (\<lambda>x. fdiv x (2 * grav self)) (mzip fsub U_g_p U_g_a))\<rparr>))))))))"

text \<open>The gyroscope scaling and rotation (lines 202 to 229).\<close>

definition identity3f :: "npfloat mat3" where
  "identity3f = ((Fin 1, Fin 0, Fin 0), (Fin 0, Fin 1, Fin 0), (Fin 0, Fin 0, Fin 1))"

definition compute_gyro_scaling ::
  "(npfloat mat3 \<Rightarrow> error + npfloat mat3) \<Rightarrow> FerrarisCalibration \<Rightarrow> FerrarisCalibrationInfo \<Rightarrow>
     error + FerrarisCalibrationInfo" where
  "compute_gyro_scaling lapack self cal_mat =
     ebind (calibrate_acc lapack cal_mat (acc_x_rot self)) (\<lambda>acc_x_rot_cor.
     ebind (calibrate_acc lapack cal_mat (acc_y_rot self)) (\<lambda>acc_y_rot_cor.
     ebind (calibrate_acc lapack cal_mat (acc_z_rot self)) (\<lambda>acc_z_rot_cor.
     ebind (calibrate_gyro_offsets cal_mat (gyr_x_rot self) acc_x_rot_cor) (\<lambda>gyr_x_rot_cor.
     ebind (calibrate_gyro_offsets cal_mat (gyr_y_rot self) acc_y_rot_cor) (\<lambda>gyr_y_rot_cor.
     ebind (calibrate_gyro_offsets cal_mat (gyr_z_rot self) acc_z_rot_cor) (\<lambda>gyr_z_rot_cor.
       let W_s = mat_T
                   (vmap (\<lambda>x. fdiv x (sampling_rate self)) (sum_axis0 gyr_x_rot_cor),
                    vmap (\<lambda>x. fdiv x (sampling_rate self)) (sum_axis0 gyr_y_rot_cor),
                    vmap (\<lambda>x. fdiv x (sampling_rate self)) (sum_axis0 gyr_z_rot_cor));
           expected_angles = mmap (fscale (expected_angle self)) identity3f
       in ebind (np_inv lapack expected_angles) (\<lambda>angles_inv.
            let multiplied = mat_mul W_s angles_inv;
                k_g_sq = diag_of (mat_mul multiplied (mat_T multiplied));
                K_g' = np_diag (vmap fsqrt k_g_sq);
                cal_mat1 = cal_mat\<lparr>K_g := Some K_g'\<rparr>
            in ebind (np_inv lapack K_g') (\<lambda>K_g_inv.
                 Inr (cal_mat1\<lparr>R_g := Some (mat_mul K_g_inv multiplied)\<rparr>)))))))))"

definition compute_calibration_matrix ::
  "(npfloat mat3 \<Rightarrow> error + npfloat mat3) \<Rightarrow> FerrarisCalibration \<Rightarrow> error + FerrarisCalibrationInfo" where
  "compute_calibration_matrix lapack self =
     ebind (compute_acc_matrix lapack self new_calibration_info) (\<lambda>cal_mat1.
     ebind (compute_gyro_offsets self cal_mat1) (\<lambda>cal_mat2.
       compute_gyro_scaling lapack self cal_mat2))"

subsection \<open>Example measurements\<close>

text \<open>
  The end-to-end example of the spec with two samples per segment: each static segment
  reads the given gravity on its axis, the gyroscope is silent while the sensor rests, and
  each rotation segment integrates to 360 degrees about its axis at 100 Hz.
\<close>

definition example_segments :: "real \<Rightarrow> (string \<times> real vec3 list) list" where
  "example_segments g =
     [(''acc_x_p'', [(g, 0, 0), (g, 0, 0)]), (''acc_x_a'', [(- g, 0, 0), (- g, 0, 0)]),
      (''acc_y_p'', [(0, g, 0), (0, g, 0)]), (''acc_y_a'', [(0, - g, 0), (0, - g, 0)]),
      (''acc_z_p'', [(0, 0, g), (0, 0, g)]), (''acc_z_a'', [(0, 0, - g), (0, 0, - g)]),
      (''acc_x_rot'', [(0, 0, 0), (0, 0, 0)]), (''acc_y_rot'', [(0, 0, 0), (0, 0, 0)]),
      (''acc_z_rot'', [(0, 0, 0), (0, 0, 0)]),
      (''gyr_x_p'', [(0, 0, 0), (0, 0, 0)]), (''gyr_x_a'', [(0, 0, 0), (0, 0, 0)]),
      (''gyr_y_p'', [(0, 0, 0), (0, 0, 0)]), (''gyr_y_a'', [(0, 0, 0), (0, 0, 0)]),
      (''gyr_z_p'', [(0, 0, 0), (0, 0, 0)]), (''gyr_z_a'', [(0, 0, 0), (0, 0, 0)]),
      (''gyr_x_rot'', [(18000, 0, 0), (18000, 0, 0)]),
      (''gyr_y_rot'', [(0, 18000, 0), (0, 18000, 0)]),
      (''gyr_z_rot'', [(0, 0, 18000), (0, 0, 18000)])]"

definition no_lapack :: "npfloat mat3 \<Rightarrow> error + npfloat mat3" where
  "no_lapack m = Inl LinAlgError"

definition identity_calibration :: FerrarisCalibrationInfo where
  "identity_calibration =
     \<lparr>b_a = Some (Fin 0, Fin 0, Fin 0), K_a = Some identity3f, R_a = Some identity3f,
      b_g = Some (Fin 0, Fin 0, Fin 0), K_g = Some identity3f, R_g = Some identity3f,
      K_ga = Some ((Fin 0, Fin 0, Fin 0), (Fin 0, Fin 0, Fin 0), (Fin 0, Fin 0, Fin 0))\<rparr>"

section \<open>The formulas of the specification\<close>

text \<open>
  Matrices and vectors of the specification are functions of the indices 0, 1, 2.
  \<open>vec_of\<close> and \<open>mat_of\<close> give the array with these (finite) entries; \<open>spec_mul\<close> is the
  matrix product, \<open>spec_T\<close> the transpose, \<open>spec_diag\<close> the diagonal matrix of a vector.
\<close>

definition comp3 :: "'a vec3 \<Rightarrow> nat \<Rightarrow> 'a" where
  "comp3 v i = (case v of (a, b, c) \<Rightarrow> if i = 0 then a else if i = 1 then b else c)"

definition vec_of :: "(nat \<Rightarrow> real) \<Rightarrow> npfloat vec3" where
  "vec_of v = (Fin (v 0), Fin (v 1), Fin (v 2))"

definition mat_of :: "(nat \<Rightarrow> nat \<Rightarrow> real) \<Rightarrow> npfloat mat3" where
  "mat_of m = (vec_of (m 0), vec_of (m 1), vec_of (m 2))"

definition spec_mul :: "(nat \<Rightarrow> nat \<Rightarrow> real) \<Rightarrow> (nat \<Rightarrow> nat \<Rightarrow> real) \<Rightarrow> nat \<Rightarrow> nat \<Rightarrow> real" where
  "spec_mul A B = (\<lambda>i j. \<Sum>k<3. A i k * B k j)"

definition spec_T :: "(nat \<Rightarrow> nat \<Rightarrow> real) \<Rightarrow> nat \<Rightarrow> nat \<Rightarrow> real" where
  "spec_T A = (\<lambda>i j. A j i)"

definition spec_diag :: "(nat \<Rightarrow> real) \<Rightarrow> nat \<Rightarrow> nat \<Rightarrow> real" where
  "spec_diag v = (\<lambda>i j. if i = j then v i else 0)"

definition spec_apply :: "(nat \<Rightarrow> nat \<Rightarrow> real) \<Rightarrow> (nat \<Rightarrow> real) \<Rightarrow> nat \<Rightarrow> real" where
  "spec_apply A v = (\<lambda>i. \<Sum>k<3. A i k * v k)"

text \<open>The mean of component \<open>i\<close> over the samples of a segment.\<close>

definition segment_mean :: "real vec3 list \<Rightarrow> nat \<Rightarrow> real" where
  "segment_mean xs i = (\<Sum>s\<leftarrow>xs. comp3 s i) / real (length xs)"

text \<open>The matrix whose column \<open>j\<close> is the mean of the segment of axis \<open>j\<close>.\<close>

definition means_in_columns ::
  "real vec3 list \<Rightarrow> real vec3 list \<Rightarrow> real vec3 list \<Rightarrow> nat \<Rightarrow> nat \<Rightarrow> real" where
  "means_in_columns x y z = (\<lambda>i j. segment_mean (comp3 (x, y, z) j) i)"

text \<open>The entries of a real matrix by index, and a matrix of the specification as rows.\<close>

definition entries :: "real mat3 \<Rightarrow> nat \<Rightarrow> nat \<Rightarrow> real" where
  "entries m = (\<lambda>i j. comp3 (comp3 m i) j)"

definition rows_of :: "(nat \<Rightarrow> nat \<Rightarrow> real) \<Rightarrow> real mat3" where
  "rows_of A = ((A 0 0, A 0 1, A 0 2), (A 1 0, A 1 1, A 1 2), (A 2 0, A 2 1, A 2 2))"

text \<open>\<open>X\<close> is the inverse of \<open>A\<close>: both products are the identity matrix.\<close>

definition spec_inverse :: "(nat \<Rightarrow> nat \<Rightarrow> real) \<Rightarrow> (nat \<Rightarrow> nat \<Rightarrow> real) \<Rightarrow> bool" where
  "spec_inverse X A =
     (mat_of (spec_mul X A) = mat_of (spec_diag (\<lambda>i. 1)) \<and>
      mat_of (spec_mul A X) = mat_of (spec_diag (\<lambda>i. 1)))"

subsection \<open>Valid input\<close>

text \<open>
  The eighteen segments in the order of \<^verbatim>\<open>_fields\<close>. The input is valid when all nine
  labels are there for both sensors, each with at least one sample, and the sampling rate
  is positive.
\<close>

definition segments :: "FerrarisCalibration \<Rightarrow> real vec3 list option list" where
  "segments c =
     [acc_x_p c, acc_x_a c, acc_y_p c, acc_y_a c, acc_z_p c, acc_z_a c,
      acc_x_rot c, acc_y_rot c, acc_z_rot c,
      gyr_x_p c, gyr_x_a c, gyr_y_p c, gyr_y_a c, gyr_z_p c, gyr_z_a c,
      gyr_x_rot c, gyr_y_rot c, gyr_z_rot c]"

definition valid_input :: "FerrarisCalibration \<Rightarrow> bool" where
  "valid_input c =
     (list_all (\<lambda>s. case s of None \<Rightarrow> False | Some xs \<Rightarrow> xs \<noteq> []) (segments c) \<and>
      0 < sampling_rate c)"

text \<open>The sum of component \<open>i\<close> over a list of samples given by their components.\<close>

definition component_sum :: "(nat \<Rightarrow> real) list \<Rightarrow> nat \<Rightarrow> real" where
  "component_sum vs i = (\<Sum>v\<leftarrow>vs. v i)"

definition example_measurement :: FerrarisCalibration where
  "example_measurement =
     FerrarisCalibration_init 100 None None (map_of (example_segments DEFAULT_GRAV))"

text \<open>
  Two variations of the example: the segments of the rotation about \<open>x\<close> have no
  samples, while the rotation about \<open>y\<close> also turns the \<open>x\<close> axis of the gyroscope; and
  the sensor rests in the same orientation for the positive and the negative \<open>x\<close>
  segment.
\<close>

definition empty_rotation_measurement :: FerrarisCalibration where
  "empty_rotation_measurement =
     FerrarisCalibration_init 100 None None
       (map_of ([(''acc_x_rot'', []), (''gyr_x_rot'', []),
                 (''gyr_y_rot'', [(18000, 18000, 0), (18000, 18000, 0)])]
                @ example_segments DEFAULT_GRAV))"

definition degenerate_measurement :: FerrarisCalibration where
  "degenerate_measurement =
     FerrarisCalibration_init 100 None None
       (map_of ((''acc_x_a'', [(DEFAULT_GRAV, 0, 0), (DEFAULT_GRAV, 0, 0)])
                # example_segments DEFAULT_GRAV))"

text \<open>The example without the two segments of the rotation about \<open>z\<close>.\<close>

definition missing_rotation_measurement :: FerrarisCalibration where
  "missing_rotation_measurement =
     FerrarisCalibration_init 100 None None
       (map_of (filter (\<lambda>kv. fst kv \<noteq> ''acc_z_rot'' \<and> fst kv \<noteq> ''gyr_z_rot'')
                  (example_segments DEFAULT_GRAV)))"

section \<open>Properties of the loader selection\<close>

lemma rfind_Some: "rfind c s = Some i \<Longrightarrow> i < length s \<and> s ! i = c"
  by (induction s arbitrary: i) (auto split: option.splits if_splits)

lemma name_suffix_cases: "name_suffix n = [] \<or> hd (name_suffix n) = CHR ''.''"
proof (cases "rfind CHR ''.'' n")
  case None
  then show ?thesis by (simp add: name_suffix_def)
next
  case (Some i)
  then have "i < length n" and "n ! i = CHR ''.''"
    using rfind_Some by blast+
  then have "hd (drop i n) = CHR ''.''"
    by (simp add: hd_drop_conv_nth)
  with Some show ?thesis by (simp add: name_suffix_def)
qed

lemma path_suffix_not_bare:
  "path_suffix p \<noteq> ''json''" "path_suffix p \<noteq> ''hdf''" "path_suffix p \<noteq> ''h5''"
  using name_suffix_cases [of "path_name p"] by (auto simp: path_suffix_def)

lemma load_calibration_info_no_format:
  "load_calibration_info p None = Inl suffix_error"
  by (simp add: load_calibration_info_def ebind_def path_suffix_not_bare)

text \<open>
  C6. Without an explicit format a path ending in \<^verbatim>\<open>.json\<close> should be handed to the JSON
  loader. The suffix that \<^verbatim>\<open>pathlib\<close> returns keeps its dot (\<^verbatim>\<open>.json\<close>), the code compares
  it with \<^verbatim>\<open>json\<close>, and the call raises the error of the undetermined format instead.
\<close>

theorem load_calibration_info_json_path:
  "path_suffix ''calib/session1.json'' = ''.json'' \<and>
   load_calibration_info ''calib/session1.json'' None = Inl suffix_error \<and>
   load_calibration_info ''calib/session1.json'' (Some ''json'') = Inr ''from_json_file''"
  by (simp add: load_calibration_info_def ebind_def path_suffix_def path_name_def
      name_suffix_def format_options_def)

section \<open>Properties of the subclass registry\<close>

lemma get_subclasses_sound: "x \<in> set (get_subclasses c) \<Longrightarrow> proper_subclass x c"
proof (induction c arbitrary: x rule: get_subclasses.induct)
  case (1 n t p fs subs)
  from "1.prems" obtain s where s: "s \<in> set subs" and x: "x \<in> set (get_subclasses s) \<or> x = s"
    by auto
  from x show ?case
  proof
    assume "x \<in> set (get_subclasses s)"
    then have "proper_subclass x s" using "1.IH" s by blast
    then show ?thesis using s by (auto intro: proper_subclass.indirect)
  next
    assume "x = s"
    then show ?thesis using s by (auto intro: proper_subclass.direct)
  qed
qed

lemma get_subclasses_direct: "s \<in> set (class_subclasses c) \<Longrightarrow> s \<in> set (get_subclasses c)"
  by (cases c) auto

lemma get_subclasses_step:
  "s \<in> set (class_subclasses c) \<Longrightarrow> x \<in> set (get_subclasses s) \<Longrightarrow> x \<in> set (get_subclasses c)"
  by (cases c) auto

lemma get_subclasses_complete: "proper_subclass x c \<Longrightarrow> x \<in> set (get_subclasses c)"
  by (induction rule: proper_subclass.induct)
    (auto intro: get_subclasses_direct get_subclasses_step)

lemma get_subclasses_iff: "x \<in> set (get_subclasses c) \<longleftrightarrow> proper_subclass x c"
  using get_subclasses_sound get_subclasses_complete by blast

lemma next_with_cal_type_found:
  assumes "\<forall>x \<in> set xs. CAL_TYPE x \<noteq> None" and "\<exists>x \<in> set xs. CAL_TYPE x = Some tag"
  shows "\<exists>pre c post. xs = pre @ c # post \<and> (\<forall>x \<in> set pre. CAL_TYPE x \<noteq> Some tag) \<and>
           CAL_TYPE c = Some tag \<and> next_with_cal_type xs (PStr tag) = Inr c"
  using assms
proof (induction xs)
  case Nil
  then show ?case by simp
next
  case (Cons a xs)
  show ?case
  proof (cases "CAL_TYPE a = Some tag")
    case True
    then have "a # xs = [] @ a # xs \<and> (\<forall>x \<in> set []. CAL_TYPE x \<noteq> Some tag) \<and>
       CAL_TYPE a = Some tag \<and> next_with_cal_type (a # xs) (PStr tag) = Inr a"
      by simp
    then show ?thesis by blast
  next
    case False
    with Cons.prems obtain pre c post where
      h: "xs = pre @ c # post" "\<forall>x \<in> set pre. CAL_TYPE x \<noteq> Some tag" "CAL_TYPE c = Some tag"
         "next_with_cal_type xs (PStr tag) = Inr c"
      using Cons.IH by auto
    from Cons.prems obtain t where t: "CAL_TYPE a = Some t" by auto
    with False h have "a # xs = (a # pre) @ c # post \<and>
       (\<forall>x \<in> set (a # pre). CAL_TYPE x \<noteq> Some tag) \<and>
       CAL_TYPE c = Some tag \<and> next_with_cal_type (a # xs) (PStr tag) = Inr c"
      by simp
    then show ?thesis by blast
  qed
qed

lemma next_with_cal_type_none:
  assumes "\<forall>x \<in> set xs. CAL_TYPE x \<noteq> None" and "\<forall>x \<in> set xs. CAL_TYPE x \<noteq> Some tag"
  shows "next_with_cal_type xs (PStr tag) = Inl StopIteration"
  using assms by (induction xs) (auto split: option.splits)

text \<open>
  C7. When every subclass defines its \<^verbatim>\<open>CAL_TYPE\<close> (as the docstring of the base class
  requires), the classes searched are exactly the direct and indirect subclasses of
  \<^verbatim>\<open>CalibrationInfo\<close>; if one of them carries the tag, the search returns the first such
  class in the order of the enumeration, and otherwise it raises (\<^verbatim>\<open>StopIteration\<close>)
  instead of returning any class.
\<close>

theorem find_subclass_from_cal_type_search:
  assumes "\<forall>x \<in> set (get_subclasses base). CAL_TYPE x \<noteq> None"
  shows "set (get_subclasses base) = {x. proper_subclass x base} \<and>
    (if \<exists>x. proper_subclass x base \<and> CAL_TYPE x = Some tag
     then \<exists>pre c post. get_subclasses base = pre @ c # post \<and>
            (\<forall>x \<in> set pre. CAL_TYPE x \<noteq> Some tag) \<and> CAL_TYPE c = Some tag \<and>
            find_subclass_from_cal_type base (PStr tag) = Inr c
     else find_subclass_from_cal_type base (PStr tag) = Inl StopIteration)"
proof -
  have reg: "set (get_subclasses base) = {x. proper_subclass x base}"
    using get_subclasses_iff by blast
  show ?thesis
  proof (cases "\<exists>x. proper_subclass x base \<and> CAL_TYPE x = Some tag")
    case True
    then have "\<exists>x \<in> set (get_subclasses base). CAL_TYPE x = Some tag"
      using get_subclasses_iff by blast
    from next_with_cal_type_found [OF assms this] True reg show ?thesis
      by (simp add: find_subclass_from_cal_type_def)
  next
    case False
    then have "\<forall>x \<in> set (get_subclasses base). CAL_TYPE x \<noteq> Some tag"
      using get_subclasses_iff by blast
    from next_with_cal_type_none [OF assms this] False reg show ?thesis
      by (simp add: find_subclass_from_cal_type_def)
  qed
qed

lemmas class_defs =
  CalibrationInfo_cls_def FerrarisCalibrationInfo_cls_def Turntable_cls_def LabFerraris_cls_def

theorem find_subclass_from_cal_type_search_witness:
  "list_all (\<lambda>x. CAL_TYPE x \<noteq> None)
     (get_subclasses (CalibrationInfo_cls [FerrarisCalibrationInfo_cls [Turntable_cls]])) \<and>
   proper_subclass Turntable_cls (CalibrationInfo_cls [FerrarisCalibrationInfo_cls [Turntable_cls]]) \<and>
   find_subclass_from_cal_type (CalibrationInfo_cls [FerrarisCalibrationInfo_cls [Turntable_cls]])
     (PStr ''Turntable'') = Inr Turntable_cls \<and>
   find_subclass_from_cal_type (CalibrationInfo_cls [FerrarisCalibrationInfo_cls [Turntable_cls]])
     (PStr ''Allan'') = Inl StopIteration"
proof -
  define base where "base = CalibrationInfo_cls [FerrarisCalibrationInfo_cls [Turntable_cls]]"
  have subs: "get_subclasses base = [Turntable_cls, FerrarisCalibrationInfo_cls [Turntable_cls]]"
    by (simp add: base_def class_defs)
  have tags: "CAL_TYPE Turntable_cls = Some ''Turntable''"
    "CAL_TYPE (FerrarisCalibrationInfo_cls [Turntable_cls]) = Some ''Ferraris''"
    by (simp_all add: class_defs)
  have all: "\<forall>x \<in> set (get_subclasses base). CAL_TYPE x \<noteq> None"
    by (simp add: subs tags)
  note search = find_subclass_from_cal_type_search [OF all]
  have reg: "set (get_subclasses base) = {x. proper_subclass x base}"
    using search [of "''Allan''"] by (rule conjunct1)
  have "Turntable_cls \<in> set (get_subclasses base)"
    by (simp add: subs)
  then have sub: "proper_subclass Turntable_cls base"
    unfolding reg by simp
  have "\<forall>x \<in> set (get_subclasses base). CAL_TYPE x \<noteq> Some ''Allan''"
    by (simp add: subs tags)
  then have none: "\<not> (\<exists>x. proper_subclass x base \<and> CAL_TYPE x = Some ''Allan'')"
    unfolding reg by simp
  have allan: "find_subclass_from_cal_type base (PStr ''Allan'') = Inl StopIteration"
    using search [of "''Allan''"] none by simp
  have turn: "find_subclass_from_cal_type base (PStr ''Turntable'') = Inr Turntable_cls"
    by (simp add: find_subclass_from_cal_type_def subs tags)
  from all have "list_all (\<lambda>x. CAL_TYPE x \<noteq> None) (get_subclasses base)"
    by (simp only: list_all_iff)
  with sub turn allan show ?thesis unfolding base_def by blast
qed

section \<open>Properties of the comparison\<close>

lemma values_differ_False:
  "\<not> is_ndarray a1 \<Longrightarrow> values_differ a1 a2 = Inr False \<longleftrightarrow> same_value a1 a2"
  by (auto simp: values_differ_def same_value_def split: list.splits)

lemma compare_fields_True:
  "compare_fields self other fs = Inr True \<longleftrightarrow>
     (\<forall>f \<in> set fs. same_value (getattr self f) (getattr other f))"
proof (induction fs)
  case Nil
  then show ?case by simp
next
  case (Cons f fs)
  show ?case
  proof (cases "is_ndarray (getattr self f)")
    case True
    then show ?thesis
      using Cons.IH by (simp add: ebind_def Let_def same_value_def)
  next
    case False
    show ?thesis
    proof (cases "values_differ (getattr self f) (getattr other f)")
      case (Inl e)
      then have "\<not> same_value (getattr self f) (getattr other f)"
        using values_differ_False [OF False, of "getattr other f"] by simp
      with Inl False show ?thesis by (simp add: ebind_def Let_def)
    next
      case (Inr b)
      then have "b = (\<not> same_value (getattr self f) (getattr other f))"
        using values_differ_False [OF False, of "getattr other f"] by auto
      with Inr False Cons.IH show ?thesis by (simp add: ebind_def Let_def)
    qed
  qed
qed

lemmas example_defs =
  example_calibration_def class_defs ferraris_fields_def base_fields_def ferraris_paras_def
  identity3_def

lemmas array_defs =
  is_ndarray_def array_equal_def np_array_def arr_shape_def arr_items_def is_num_def
  is_num_list_def the_num_def the_nums_def tolist_def

section \<open>Round trips\<close>

lemma np_array_json_encode:
  assumes "valid_array v" shows "np_array (json_encode v) = v"
proof (cases v)
  case (PVec xs)
  have "list_all is_num (map PNum xs)" by (simp add: list_all_iff is_num_def)
  moreover have "map the_num (map PNum xs) = xs" by (simp add: the_num_def comp_def)
  ultimately show ?thesis using PVec by (simp add: np_array_def)
next
  case (PMat c rows)
  with assms have ne: "rows \<noteq> []" and len: "\<forall>r \<in> set rows. length r = c"
    by (simp_all add: valid_array_def list_all_iff)
  let ?js = "map (\<lambda>r. PList (map PNum r)) rows"
  have a: "\<not> list_all is_num ?js"
    using ne by (cases rows) (simp_all add: is_num_def)
  have tn: "the_nums (PList (map PNum r)) = r" for r
    by (simp add: the_nums_def the_num_def comp_def)
  have b: "list_all is_num_list ?js"
    by (simp add: list_all_iff is_num_list_def is_num_def)
  have hd: "the_nums (hd ?js) = hd rows"
    using ne by (cases rows) (simp_all add: tn)
  have "hd rows \<in> set rows" using ne by simp
  then have hl: "length (hd rows) = c" using len by blast
  have c: "list_all (\<lambda>r. length (the_nums r) = length (the_nums (hd ?js))) ?js"
    unfolding hd hl using len by (simp add: list_all_iff tn)
  have d: "map the_nums ?js = rows"
    by (simp add: comp_def tn)
  show ?thesis
    using PMat a b c d hd hl by (simp add: np_array_def)
qed (use assms in \<open>simp_all add: valid_array_def\<close>)

lemma np_array_tolist:
  assumes "valid_array v" shows "np_array (tolist v) = v"
proof -
  have "tolist v = json_encode v"
    using assms by (cases v) (simp_all add: valid_array_def tolist_def)
  then show ?thesis using np_array_json_encode [OF assms] by simp
qed

lemma np_array_valid: "valid_array v \<Longrightarrow> np_array v = v"
  by (cases v) (simp_all add: valid_array_def np_array_def)

lemma json_encode_optional_str: "optional_str v \<Longrightarrow> json_encode v = v"
  by (cases v) (simp_all add: optional_str_def)

lemma map_of_fields:
  assumes "distinct (map field_name fs)" and "f \<in> set fs"
  shows "map_of (map (\<lambda>f. (field_name f, h f)) fs) (field_name f) = Some (h f)"
  using assms
proof (induction fs)
  case Nil
  then show ?case by simp
next
  case (Cons a fs)
  then show ?case by (auto simp: image_iff)
qed

lemma map_of_fields_None:
  "k \<notin> set (map field_name fs) \<Longrightarrow> map_of (map (\<lambda>f. (field_name f, h f)) fs) k = None"
  by (induction fs) auto

lemma dict_set_fields:
  assumes "f \<in> set fs"
  shows "dict_set (map (\<lambda>f. (field_name f, h f)) fs) (field_name f) v =
         map (\<lambda>g. (field_name g, if field_name g = field_name f then v else h g)) fs"
  using assms by (auto simp: dict_set_def image_iff)

lemma arrays_from_lists_fields:
  assumes "distinct (map field_name fs)" and "set ks \<subseteq> set (map field_name fs)"
  shows "arrays_from_lists ks (map (\<lambda>f. (field_name f, h f)) fs) =
         Inr (map (\<lambda>f. (field_name f, if field_name f \<in> set ks then np_array (h f) else h f)) fs)"
  using assms(2)
proof (induction ks arbitrary: h)
  case Nil
  then show ?case by simp
next
  case (Cons k ks)
  then obtain f where f: "f \<in> set fs" "field_name f = k" by auto
  have idem: "np_array (np_array v) = np_array v" for v
    by (cases v) (auto simp: np_array_def)
  let ?h = "\<lambda>g. if field_name g = field_name f then np_array (h f) else h g"
  have look: "map_of (map (\<lambda>f. (field_name f, h f)) fs) k = Some (h f)"
    using map_of_fields [OF assms(1) f(1)] f(2) by simp
  have same: "field_name g = field_name f \<Longrightarrow> g \<in> set fs \<Longrightarrow> g = f" for g
    using assms(1) f(1) by (meson distinct_map inj_onD)
  have "arrays_from_lists (k # ks) (map (\<lambda>f. (field_name f, h f)) fs) =
        arrays_from_lists ks (map (\<lambda>g. (field_name g, ?h g)) fs)"
    using look dict_set_fields [OF f(1), of h "np_array (h f)"] f(2) by simp
  also have "\<dots> = Inr (map (\<lambda>g. (field_name g,
       if field_name g \<in> set ks then np_array (?h g) else ?h g)) fs)"
    using Cons.IH [of ?h] Cons.prems by simp
  also have "map (\<lambda>g. (field_name g, if field_name g \<in> set ks then np_array (?h g) else ?h g)) fs =
     map (\<lambda>g. (field_name g, if field_name g \<in> set (k # ks) then np_array (h g) else h g)) fs"
    using f(2) same by (auto simp: idem)
  finally show ?case .
qed

lemma construct_fields:
  assumes "distinct (map field_name (dataclass_fields cls))"
  shows "construct cls (map (\<lambda>f. (field_name f, h f)) (dataclass_fields cls)) =
         Inr (PyObj cls (map (\<lambda>f. (field_name f, h f)) (dataclass_fields cls)))"
proof -
  have "list_all (\<lambda>k. k \<in> set (map field_name (dataclass_fields cls)))
          (map fst (map (\<lambda>f. (field_name f, h f)) (dataclass_fields cls)))"
    by (simp add: list_all_iff)
  moreover have "map (\<lambda>f. (field_name f,
       (case map_of (map (\<lambda>f. (field_name f, h f)) (dataclass_fields cls)) (field_name f) of
          Some v \<Rightarrow> v | None \<Rightarrow> field_default f))) (dataclass_fields cls) =
     map (\<lambda>f. (field_name f, h f)) (dataclass_fields cls)"
    by (simp add: map_of_fields [OF assms])
  ultimately show ?thesis by (simp add: construct_def)
qed


lemma getattr_asdict:
  assumes "distinct (map field_name (dataclass_fields (inst_class r)))"
    and "f \<in> set (dataclass_fields (inst_class r))"
  shows "getattr (PyObj (inst_class r) (map (\<lambda>f. (field_name f, h f)) (dataclass_fields (inst_class r)))) f = h f"
  by (simp add: getattr_def map_of_fields [OF assms])

lemma array_equal_refl: "array_equal v v"
  by (simp add: array_equal_def)

lemma same_value_refl: "same_value v v"
  by (simp add: same_value_def array_equal_refl)

lemma cal_eq_same_values:
  assumes "distinct (map field_name (dataclass_fields (inst_class r)))"
    and "CAL_TYPE (inst_class r) = Some tag"
    and "\<forall>f \<in> set (dataclass_fields (inst_class r)). h f = getattr r f"
  shows "cal_eq (PyObj (inst_class r) (map (\<lambda>f. (field_name f, h f)) (dataclass_fields (inst_class r)))) r = Inr True"
proof -
  let ?r' = "PyObj (inst_class r) (map (\<lambda>f. (field_name f, h f)) (dataclass_fields (inst_class r)))"
  have "compare_fields ?r' r (dataclass_fields (inst_class r)) = Inr True"
    unfolding compare_fields_True
    using assms(3) getattr_asdict [OF assms(1)] by (simp add: same_value_refl)
  then show ?thesis
    using assms(2) by (simp add: cal_eq_def isinstance_def)
qed

text \<open>
  C4. For a valid record whose class is the one registered for its tag, \<^verbatim>\<open>to_json\<close>
  succeeds, \<^verbatim>\<open>from_json\<close> of the document succeeds, and the record read back compares
  equal (\<^verbatim>\<open>==\<close>) to the original.
\<close>

theorem json_round_trip:
  assumes "valid_record r" and "CAL_TYPE (inst_class r) = Some tag"
    and "find_subclass_from_cal_type base (PStr tag) = Inr (inst_class r)"
  shows "\<exists>doc r'. to_json r = Inr doc \<and> from_json base doc = Inr r' \<and> cal_eq r' r = Inr True"
proof -
  let ?cls = "inst_class r"
  let ?fs = "dataclass_fields ?cls"
  from assms(1) obtain paras where
    paras: "cal_paras ?cls = Some paras" and
    dist: "distinct (map field_name ?fs)" and
    nct: "''cal_type'' \<notin> set (map field_name ?fs)" and
    sub: "set paras \<subseteq> set (map field_name ?fs)" and
    vals: "\<forall>f \<in> set ?fs. if field_name f \<in> set paras then valid_array (getattr r f)
             else optional_str (getattr r f)"
    by (auto simp: valid_record_def list_all_iff split: option.splits)
  let ?enc = "map (\<lambda>f. (field_name f, json_encode (getattr r f))) ?fs"
  let ?doc = "PDict (?enc @ [(''cal_type'', PStr tag)])"
  have "dict_set (asdict r) ''cal_type'' (PStr tag) = asdict r @ [(''cal_type'', PStr tag)]"
    using nct by (simp add: dict_set_def asdict_def comp_def)
  then have tj: "to_json r = Inr ?doc"
    using assms(2) by (simp add: to_json_def to_list_dict_def ebind_def asdict_def comp_def)
  have look: "map_of (?enc @ [(''cal_type'', PStr tag)]) ''cal_type'' = Some (PStr tag)"
    by (simp add: map_add_def map_of_fields_None [OF nct])
  have "\<forall>kv \<in> set ?enc. fst kv \<noteq> ''cal_type''"
    using nct by (auto simp: image_iff)
  then have del: "dict_del (?enc @ [(''cal_type'', PStr tag)]) ''cal_type'' = ?enc"
    by (auto simp: dict_del_def filter_id_conv)
  let ?h = "\<lambda>f. if field_name f \<in> set paras then np_array (json_encode (getattr r f))
                  else json_encode (getattr r f)"
  have hv: "\<forall>f \<in> set ?fs. ?h f = getattr r f"
    using vals by (auto simp: np_array_json_encode json_encode_optional_str)
  have "from_list_dict ?cls ?enc = construct ?cls (map (\<lambda>f. (field_name f, ?h f)) ?fs)"
    using paras arrays_from_lists_fields [OF dist sub] by (simp add: from_list_dict_def ebind_def)
  also have "\<dots> = Inr (PyObj ?cls (map (\<lambda>f. (field_name f, ?h f)) ?fs))"
    by (rule construct_fields [OF dist])
  finally have fj: "from_json base ?doc = Inr (PyObj ?cls (map (\<lambda>f. (field_name f, ?h f)) ?fs))"
    using look del assms(3) by (simp add: from_json_def ebind_def)
  have "cal_eq (PyObj ?cls (map (\<lambda>f. (field_name f, ?h f)) ?fs)) r = Inr True"
    by (rule cal_eq_same_values [OF dist assms(2) hv])
  with tj fj show ?thesis by blast
qed

theorem json_round_trip_witness:
  "valid_record (example_calibration (FerrarisCalibrationInfo_cls []) (PStr ''bench 2'')) \<and>
   CAL_TYPE (inst_class (example_calibration (FerrarisCalibrationInfo_cls []) (PStr ''bench 2''))) =
     Some ''Ferraris'' \<and>
   find_subclass_from_cal_type (CalibrationInfo_cls [FerrarisCalibrationInfo_cls []]) (PStr ''Ferraris'') =
     Inr (inst_class (example_calibration (FerrarisCalibrationInfo_cls []) (PStr ''bench 2''))) \<and>
   (\<exists>doc r'. to_json (example_calibration (FerrarisCalibrationInfo_cls []) (PStr ''bench 2'')) = Inr doc \<and>
      from_json (CalibrationInfo_cls [FerrarisCalibrationInfo_cls []]) doc = Inr r' \<and>
      cal_eq r' (example_calibration (FerrarisCalibrationInfo_cls []) (PStr ''bench 2'')) = Inr True)"
proof -
  let ?r = "example_calibration (FerrarisCalibrationInfo_cls []) (PStr ''bench 2'')"
  have v: "valid_record ?r"
    by (simp add: valid_record_def example_defs getattr_def valid_array_def optional_str_def)
  have t: "CAL_TYPE (inst_class ?r) = Some ''Ferraris''"
    by (simp add: example_defs)
  have f: "find_subclass_from_cal_type (CalibrationInfo_cls [FerrarisCalibrationInfo_cls []])
      (PStr ''Ferraris'') = Inr (inst_class ?r)"
    by (simp add: find_subclass_from_cal_type_def example_defs)
  from json_round_trip [OF v t f] v t f show ?thesis by blast
qed

lemma truthy_optional_str:
  "optional_str v \<Longrightarrow> truthy v = Inr (v \<noteq> PNone \<and> v \<noteq> PStr [])"
  by (cases v) (simp_all add: optional_str_def truthy_def)

lemma hdf_create_array:
  assumes "valid_array v" and "k \<notin> set (map fst hdf)"
  shows "hdf_create hdf k (tolist v) = Inr (hdf @ [(k, v)])"
proof -
  obtain xs where "tolist v = PList xs"
    using assms(1) by (cases v) (simp_all add: valid_array_def tolist_def)
  then show ?thesis
    using assms np_array_tolist [OF assms(1)] by (simp add: hdf_create_def)
qed

lemma hdf_create_str:
  assumes "optional_str v" and "v \<noteq> PNone" and "k \<notin> set (map fst hdf)"
  shows "hdf_create hdf k v = Inr (hdf @ [(k, v)])"
  using assms by (cases v) (simp_all add: optional_str_def hdf_create_def)

lemma is_ndarray_valid: "valid_array v \<Longrightarrow> is_ndarray v"
  by (cases v) (simp_all add: valid_array_def is_ndarray_def)

lemma write_fields_valid:
  assumes "cal_paras (inst_class r) = Some paras"
    and "distinct (map field_name fs)"
    and "set (map field_name fs) \<inter> set (map fst hdf) = {}"
    and "\<forall>f \<in> set fs. if field_name f \<in> set paras then valid_array (getattr r f)
           else optional_str (getattr r f)"
  shows "write_fields r fs hdf =
         Inr (hdf @ map (\<lambda>f. (field_name f, getattr r f)) (filter (written r paras) fs))"
  using assms(2-)
proof (induction fs arbitrary: hdf)
  case Nil
  then show ?case by simp
next
  case (Cons k ks)
  let ?v = "getattr r k"
  have fresh: "field_name k \<notin> set (map fst hdf)" using Cons.prems(2) by auto
  let ?hdf' = "if written r paras k then hdf @ [(field_name k, ?v)] else hdf"
  have step: "(if field_name k \<in> set paras then
               (if is_ndarray ?v then hdf_create hdf (field_name k) (tolist ?v)
                else Inl AttributeError)
             else ebind (truthy ?v)
                 (\<lambda>b. if b then hdf_create hdf (field_name k) ?v else Inr hdf)) = Inr ?hdf'"
  proof (cases "field_name k \<in> set paras")
    case True
    then have "valid_array ?v" using Cons.prems(3) by simp
    then show ?thesis
      using True fresh by (simp add: is_ndarray_valid hdf_create_array written_def)
  next
    case False
    then have "optional_str ?v" using Cons.prems(3) by simp
    then show ?thesis
      using False fresh
      by (auto simp: truthy_optional_str ebind_def hdf_create_str written_def)
  qed
  have disj: "set (map field_name ks) \<inter> set (map fst ?hdf') = {}"
    using Cons.prems(1,2) by auto
  have "write_fields r (k # ks) hdf = write_fields r ks ?hdf'"
    using assms(1) step by (simp add: ebind_def Let_def)
  also have "\<dots> = Inr (?hdf' @ map (\<lambda>f. (field_name f, getattr r f)) (filter (written r paras) ks))"
    using Cons.IH [OF _ disj] Cons.prems(1,3) by simp
  finally show ?case by simp
qed

lemma read_fields_values:
  assumes "cal_paras cls = Some paras"
    and "distinct (map field_name fs)"
    and "set (map field_name fs) \<inter> set (map fst vals) = {}"
  shows "read_fields cls fs hdf vals =
         Inr (vals @ map (\<lambda>f. (field_name f,
                if field_name f \<in> set paras
                then np_array (case map_of hdf (field_name f) of None \<Rightarrow> PNone | Some v \<Rightarrow> v)
                else (case map_of hdf (field_name f) of Some v \<Rightarrow> v | None \<Rightarrow> PNone))) fs)"
  using assms(2-)
proof (induction fs arbitrary: vals)
  case Nil
  then show ?case by simp
next
  case (Cons k ks)
  let ?v = "if field_name k \<in> set paras
            then np_array (case map_of hdf (field_name k) of None \<Rightarrow> PNone | Some v \<Rightarrow> v)
            else (case map_of hdf (field_name k) of Some v \<Rightarrow> v | None \<Rightarrow> PNone)"
  have fresh: "field_name k \<notin> set (map fst vals)" using Cons.prems(2) by auto
  then have set: "dict_set vals (field_name k) ?v = vals @ [(field_name k, ?v)]"
    by (simp add: dict_set_def)
  have disj: "set (map field_name ks) \<inter> set (map fst (vals @ [(field_name k, ?v)])) = {}"
    using Cons.prems(1,2) by auto
  have "read_fields cls (k # ks) hdf vals = read_fields cls ks hdf (vals @ [(field_name k, ?v)])"
    using assms(1) set by (simp add: Let_def)
  also have "\<dots> = Inr ((vals @ [(field_name k, ?v)]) @ map (\<lambda>f. (field_name f,
                if field_name f \<in> set paras
                then np_array (case map_of hdf (field_name f) of None \<Rightarrow> PNone | Some v \<Rightarrow> v)
                else (case map_of hdf (field_name f) of Some v \<Rightarrow> v | None \<Rightarrow> PNone))) ks)"
    using Cons.IH [OF _ disj] Cons.prems(1) by simp
  finally show ?case by simp
qed

lemma map_of_written:
  assumes "distinct (map field_name fs)" and "f \<in> set fs"
  shows "map_of (map (\<lambda>f. (field_name f, h f)) (filter P fs)) (field_name f) =
         (if P f then Some (h f) else None)"
  using assms
proof (induction fs)
  case Nil
  then show ?case by simp
next
  case (Cons a fs)
  then show ?case by (auto simp: image_iff map_of_eq_None_iff)
qed

text \<open>
  C5 (as amended). For a valid record whose class is the one registered for its tag,
  \<^verbatim>\<open>to_hdf5\<close> and \<^verbatim>\<open>from_hdf5\<close> succeed; the record read back has every field of the
  original, except that a field holding the empty string comes back as \<^verbatim>\<open>None\<close>; and it
  compares equal to the original exactly when no field holds the empty string.
\<close>

theorem hdf5_round_trip:
  assumes "valid_record r" and "CAL_TYPE (inst_class r) = Some tag"
    and "find_subclass_from_cal_type base (PStr tag) = Inr (inst_class r)"
  shows "\<exists>hdf r'. to_hdf5 r = Inr hdf \<and> from_hdf5 base hdf = Inr r' \<and>
      (\<forall>f \<in> set (dataclass_fields (inst_class r)).
         getattr r' f = (if getattr r f = PStr [] then PNone else getattr r f)) \<and>
      (cal_eq r' r = Inr True \<longleftrightarrow>
         (\<forall>f \<in> set (dataclass_fields (inst_class r)). getattr r f \<noteq> PStr []))"
proof -
  let ?cls = "inst_class r"
  let ?fs = "dataclass_fields ?cls"
  from assms(1) obtain paras where
    paras: "cal_paras ?cls = Some paras" and
    dist: "distinct (map field_name ?fs)" and
    nct: "''cal_type'' \<notin> set (map field_name ?fs)" and
    vals: "\<forall>f \<in> set ?fs. if field_name f \<in> set paras then valid_array (getattr r f)
             else optional_str (getattr r f)"
    by (auto simp: valid_record_def list_all_iff split: option.splits)
  let ?entries = "map (\<lambda>f. (field_name f, getattr r f)) (filter (written r paras) ?fs)"
  let ?hdf = "?entries @ [(''cal_type'', PStr tag)]"
  have wf: "write_fields r ?fs [] = Inr ?entries"
    using write_fields_valid [OF paras dist _ vals, of "[]"] by simp
  have keys: "''cal_type'' \<notin> set (map fst ?entries)"
    using nct by (auto simp: image_iff)
  have th: "to_hdf5 r = Inr ?hdf"
    using wf keys assms(2) by (simp add: to_hdf5_def ebind_def hdf_create_def image_image)
  have "''cal_type'' \<notin> set (map field_name (filter (written r paras) ?fs))"
    using nct by auto
  then have tag: "map_of ?hdf ''cal_type'' = Some (PStr tag)"
    by (simp add: map_add_def map_of_fields_None)
  have look: "map_of ?hdf (field_name f) = (if written r paras f then Some (getattr r f) else None)"
    if "f \<in> set ?fs" for f
  proof -
    have "field_name f \<noteq> ''cal_type''" using nct that by (auto simp: image_iff)
    then show ?thesis
      using map_of_written [OF dist that, of "getattr r" "written r paras"]
      by (simp add: map_add_def)
  qed
  let ?rd = "\<lambda>f. if field_name f \<in> set paras
                then np_array (case map_of ?hdf (field_name f) of None \<Rightarrow> PNone | Some v \<Rightarrow> v)
                else (case map_of ?hdf (field_name f) of Some v \<Rightarrow> v | None \<Rightarrow> PNone)"
  let ?h = "\<lambda>f. if getattr r f = PStr [] then PNone else getattr r f"
  have rdh: "?rd f = ?h f" if "f \<in> set ?fs" for f
  proof (cases "field_name f \<in> set paras")
    case True
    then have va: "valid_array (getattr r f)" using vals that by simp
    then have "getattr r f \<noteq> PStr []" by (auto simp: valid_array_def)
    then show ?thesis
      using True look [OF that] np_array_valid [OF va] by (simp add: written_def)
  next
    case False
    then show ?thesis
      using look [OF that] by (auto simp: written_def)
  qed
  have "read_fields ?cls ?fs ?hdf [] = Inr (map (\<lambda>f. (field_name f, ?rd f)) ?fs)"
    using read_fields_values [OF paras dist, of "[]" ?hdf] by simp
  also have "map (\<lambda>f. (field_name f, ?rd f)) ?fs = map (\<lambda>f. (field_name f, ?h f)) ?fs"
    using rdh by simp
  finally have rf: "read_fields ?cls ?fs ?hdf [] = Inr (map (\<lambda>f. (field_name f, ?h f)) ?fs)" .
  let ?r' = "PyObj ?cls (map (\<lambda>f. (field_name f, ?h f)) ?fs)"
  have fh: "from_hdf5 base ?hdf = Inr ?r'"
    using tag assms(3) rf construct_fields [OF dist, of ?h]
    by (simp add: from_hdf5_def ebind_def)
  have ga: "getattr ?r' f = ?h f" if "f \<in> set ?fs" for f
    using getattr_asdict [OF dist that, of ?h] .
  have ce: "cal_eq ?r' r = compare_fields ?r' r ?fs"
    using assms(2) by (simp add: cal_eq_def isinstance_def)
  have cf: "compare_fields ?r' r ?fs = Inr True \<longleftrightarrow>
      (\<forall>f \<in> set ?fs. same_value (?h f) (getattr r f))"
    by (simp add: compare_fields_True ga)
  have pw: "same_value (?h f) (getattr r f) \<longleftrightarrow> getattr r f \<noteq> PStr []" for f
    by (auto simp: same_value_def array_equal_refl is_ndarray_def)
  have eq: "cal_eq ?r' r = Inr True \<longleftrightarrow> (\<forall>f \<in> set ?fs. getattr r f \<noteq> PStr [])"
    unfolding ce cf pw ..
  from th fh ga eq show ?thesis by blast
qed

theorem hdf5_round_trip_witness:
  "valid_record (example_calibration (FerrarisCalibrationInfo_cls []) (PStr ''bench 2'')) \<and>
   CAL_TYPE (inst_class (example_calibration (FerrarisCalibrationInfo_cls []) (PStr ''bench 2''))) =
     Some ''Ferraris'' \<and>
   find_subclass_from_cal_type (CalibrationInfo_cls [FerrarisCalibrationInfo_cls []]) (PStr ''Ferraris'') =
     Inr (inst_class (example_calibration (FerrarisCalibrationInfo_cls []) (PStr ''bench 2''))) \<and>
   (\<exists>hdf r'. to_hdf5 (example_calibration (FerrarisCalibrationInfo_cls []) (PStr ''bench 2'')) = Inr hdf \<and>
      from_hdf5 (CalibrationInfo_cls [FerrarisCalibrationInfo_cls []]) hdf = Inr r' \<and>
      cal_eq r' (example_calibration (FerrarisCalibrationInfo_cls []) (PStr ''bench 2'')) = Inr True)"
proof -
  let ?r = "example_calibration (FerrarisCalibrationInfo_cls []) (PStr ''bench 2'')"
  have v: "valid_record ?r"
    by (simp add: valid_record_def example_defs getattr_def valid_array_def optional_str_def)
  have t: "CAL_TYPE (inst_class ?r) = Some ''Ferraris''"
    by (simp add: example_defs)
  have f: "find_subclass_from_cal_type (CalibrationInfo_cls [FerrarisCalibrationInfo_cls []])
      (PStr ''Ferraris'') = Inr (inst_class ?r)"
    by (simp add: find_subclass_from_cal_type_def example_defs)
  have ne: "\<forall>f \<in> set (dataclass_fields (inst_class ?r)). getattr ?r f \<noteq> PStr []"
    by (simp add: example_defs getattr_def)
  from hdf5_round_trip [OF v t f] ne v t f show ?thesis by blast
qed

text \<open>
  The claim C5 as stated fails: a record whose comment is the empty string is written
  without its comment, read back with \<^verbatim>\<open>comment = None\<close>, and the result does not compare
  equal to the original.
\<close>

theorem hdf5_round_trip_empty_comment:
  "valid_record (example_calibration (FerrarisCalibrationInfo_cls []) (PStr [])) \<and>
   ebind
     (ebind (to_hdf5 (example_calibration (FerrarisCalibrationInfo_cls []) (PStr [])))
        (from_hdf5 (CalibrationInfo_cls [FerrarisCalibrationInfo_cls []])))
     (\<lambda>r'. cal_eq r' (example_calibration (FerrarisCalibrationInfo_cls []) (PStr []))) = Inr False"
proof -
  let ?r = "example_calibration (FerrarisCalibrationInfo_cls []) (PStr [])"
  have v: "valid_record ?r"
    by (simp add: valid_record_def example_defs getattr_def valid_array_def optional_str_def)
  have w: "to_hdf5 ?r = Inr
     [(''acc_unit'', PStr ''m/s^2''), (''gyr_unit'', PStr ''deg/s''),
      (''b_a'', PVec [1/2, 0, -3]), (''K_a'', identity3), (''R_a'', identity3),
      (''b_g'', PVec [0, 0, 0]), (''K_g'', identity3), (''R_g'', identity3),
      (''K_ga'', PMat 3 [[0, 0, 0], [0, 0, 0], [0, 0, 0]]), (''cal_type'', PStr ''Ferraris'')]"
    by (simp add: to_hdf5_def example_defs getattr_def ebind_def hdf_create_def truthy_def
        array_defs)
  have rd: "from_hdf5 (CalibrationInfo_cls [FerrarisCalibrationInfo_cls []])
     [(''acc_unit'', PStr ''m/s^2''), (''gyr_unit'', PStr ''deg/s''),
      (''b_a'', PVec [1/2, 0, -3]), (''K_a'', identity3), (''R_a'', identity3),
      (''b_g'', PVec [0, 0, 0]), (''K_g'', identity3), (''R_g'', identity3),
      (''K_ga'', PMat 3 [[0, 0, 0], [0, 0, 0], [0, 0, 0]]), (''cal_type'', PStr ''Ferraris'')] =
     Inr (example_calibration (FerrarisCalibrationInfo_cls []) PNone)"
    by (simp add: from_hdf5_def find_subclass_from_cal_type_def example_defs ebind_def
        dict_set_def construct_def array_defs)
  have ce: "cal_eq (example_calibration (FerrarisCalibrationInfo_cls []) PNone) ?r = Inr False"
    by (simp add: cal_eq_def isinstance_def example_defs getattr_def ebind_def array_defs
        values_differ_def)
  from v w rd ce show ?thesis by (simp add: ebind_def)
qed

section \<open>The equality operator\<close>

lemma get_subclasses_smaller: "x \<in> set (get_subclasses c) \<Longrightarrow> size x < size c"
proof (induction c arbitrary: x rule: get_subclasses.induct)
  case (1 n t p fs subs)
  from "1.prems" obtain s where s: "s \<in> set subs" and x: "x \<in> set (get_subclasses s) \<or> x = s"
    by auto
  have "size s < Suc (size_list size subs)"
    using s by (simp add: size_list_estimation' less_Suc_eq_le)
  moreover have "size x \<le> size s"
    using x "1.IH" [OF s] by (auto simp: less_imp_le)
  ultimately show ?case by simp
qed

lemma py_eq_other_class:
  assumes "inst_class other \<noteq> inst_class self"
  shows "py_eq self other =
     Inl (comparison_error
       (if inst_class other \<in> set (get_subclasses (inst_class self))
        then inst_class other else inst_class self))"
proof (cases "inst_class other \<in> set (get_subclasses (inst_class self))")
  case True
  then have "inst_class self \<notin> set (get_subclasses (inst_class other))"
    using get_subclasses_smaller [of "inst_class other" "inst_class self"]
      get_subclasses_smaller [of "inst_class self" "inst_class other"] by auto
  with assms True show ?thesis
    by (auto simp: py_eq_def cal_eq_def isinstance_def)
next
  case False
  with assms show ?thesis
    by (auto simp: py_eq_def cal_eq_def isinstance_def)
qed

lemma array_equal_valid:
  assumes "valid_array a" "valid_array b"
  shows "array_equal a b \<longleftrightarrow> a = b"
proof (cases a)
  case a: (PVec xs)
  show ?thesis
  proof (cases b)
    case (PVec ys)
    with a show ?thesis
      by (auto simp: array_equal_def np_array_def arr_shape_def arr_items_def
          inj_map_eq_map inj_on_def)
  next
    case (PMat c rows)
    with a show ?thesis
      by (simp add: array_equal_def np_array_def arr_shape_def arr_items_def)
  qed (use assms in \<open>simp_all add: valid_array_def\<close>)
next
  case a: (PMat c rows)
  show ?thesis
  proof (cases b)
    case (PVec ys)
    with a show ?thesis
      by (simp add: array_equal_def np_array_def arr_shape_def arr_items_def)
  next
    case b: (PMat c' rows')
    from assms a b have len: "\<forall>r \<in> set rows. length r = c" "\<forall>r \<in> set rows'. length r = c'"
      by (simp_all add: valid_array_def list_all_iff)
    have "concat rows = concat rows' \<longleftrightarrow> rows = rows'"
      if "length rows = length rows'" "c = c'"
    proof (rule concat_eq_concat_iff)
      show "\<forall>(x, y) \<in> set (zip rows rows'). length x = length y"
      proof (clarify)
        fix x y assume xy: "(x, y) \<in> set (zip rows rows')"
        then have "x \<in> set rows" "y \<in> set rows'"
          by (auto dest: set_zip_leftD set_zip_rightD)
        then show "length x = length y" using len that(2) by simp
      qed
      show "length rows = length rows'" by (rule that(1))
    qed
    then show ?thesis
      using a b
      by (auto simp: array_equal_def np_array_def arr_shape_def arr_items_def
          inj_map_eq_map inj_on_def)
  qed (use assms in \<open>simp_all add: valid_array_def\<close>)
qed (use assms in \<open>simp_all add: valid_array_def\<close>)

lemma not_ndarray_optional_str: "optional_str v \<Longrightarrow> \<not> is_ndarray v"
  by (cases v) (simp_all add: optional_str_def is_ndarray_def)

lemma compare_fields_valid:
  assumes "\<forall>f \<in> set fs.
     (valid_array (getattr self f) \<and> valid_array (getattr other f)) \<or>
     (optional_str (getattr self f) \<and> optional_str (getattr other f))"
  shows "compare_fields self other fs = Inr (\<forall>f \<in> set fs. getattr self f = getattr other f)"
  using assms
proof (induction fs)
  case Nil
  then show ?case by simp
next
  case (Cons f fs)
  from Cons.prems consider
    "valid_array (getattr self f)" "valid_array (getattr other f)"
    | "optional_str (getattr self f)" "optional_str (getattr other f)"
    by auto
  then have step: "(if is_ndarray (getattr self f)
        then Inr (\<not> array_equal (getattr self f) (getattr other f))
        else values_differ (getattr self f) (getattr other f)) =
      Inr (getattr self f \<noteq> getattr other f)"
  proof cases
    case 1
    then show ?thesis by (simp add: is_ndarray_valid array_equal_valid)
  next
    case 2
    then show ?thesis by (simp add: not_ndarray_optional_str values_differ_def)
  qed
  have ih: "compare_fields self other fs = Inr (\<forall>f \<in> set fs. getattr self f = getattr other f)"
    using Cons.IH Cons.prems by simp
  have "compare_fields self other (f # fs) =
      (if getattr self f \<noteq> getattr other f then Inr False
       else Inr (\<forall>f \<in> set fs. getattr self f = getattr other f))"
    by (simp only: compare_fields.simps Let_def step ebind_def sum.case ih)
  then show ?case by auto
qed

text \<open>
  C8. Comparing two calibration objects with \<^verbatim>\<open>==\<close>: when the class of the other operand is
  not the class of the receiver, the comparison raises, whichever of the two is the
  subclass; the error is the \<^verbatim>\<open>ValueError\<close> of the type check of \<^verbatim>\<open>__eq__\<close>, and it names
  the class whose \<^verbatim>\<open>__eq__\<close> ran (the class of the right operand when that is a proper
  subclass of the class of the left one, the class of the left operand otherwise). When
  both operands have the same class, one that defines \<^verbatim>\<open>CAL_TYPE\<close>, the comparison returns
  \<^verbatim>\<open>True\<close> if and only if every field agrees (\<^verbatim>\<open>np.array_equal\<close> for a field holding an
  array, \<^verbatim>\<open>==\<close> for the others); for two valid records it returns, without an error,
  whether every field of the one equals the same field of the other.
\<close>

theorem eq_operator_semantics:
  "(inst_class other \<noteq> inst_class self \<longrightarrow>
      py_eq self other =
        Inl (comparison_error
          (if inst_class other \<in> set (get_subclasses (inst_class self))
           then inst_class other else inst_class self))) \<and>
   (inst_class other = inst_class self \<and> CAL_TYPE (inst_class self) \<noteq> None \<longrightarrow>
      (py_eq self other = Inr True \<longleftrightarrow>
         (\<forall>f \<in> set (dataclass_fields (inst_class self)).
            same_value (getattr self f) (getattr other f)))) \<and>
   (inst_class other = inst_class self \<and> CAL_TYPE (inst_class self) \<noteq> None \<and>
    valid_record self \<and> valid_record other \<longrightarrow>
      py_eq self other =
        Inr (\<forall>f \<in> set (dataclass_fields (inst_class self)). getattr self f = getattr other f))"
proof -
  have 1: "py_eq self other =
        Inl (comparison_error
          (if inst_class other \<in> set (get_subclasses (inst_class self))
           then inst_class other else inst_class self))"
    if "inst_class other \<noteq> inst_class self"
    by (rule py_eq_other_class) (rule that)
  have same: "py_eq self other = compare_fields self other (dataclass_fields (inst_class self))"
    if "inst_class other = inst_class self" "CAL_TYPE (inst_class self) \<noteq> None"
    using that by (auto simp: py_eq_def cal_eq_def isinstance_def)
  have 2: "py_eq self other = Inr True \<longleftrightarrow>
         (\<forall>f \<in> set (dataclass_fields (inst_class self)).
            same_value (getattr self f) (getattr other f))"
    if "inst_class other = inst_class self" "CAL_TYPE (inst_class self) \<noteq> None"
    using same [OF that] by (simp add: compare_fields_True)
  have 3: "py_eq self other =
        Inr (\<forall>f \<in> set (dataclass_fields (inst_class self)). getattr self f = getattr other f)"
    if c: "inst_class other = inst_class self" "CAL_TYPE (inst_class self) \<noteq> None"
      and v: "valid_record self" "valid_record other"
  proof -
    from v c(1) obtain paras where
      vs: "\<forall>f \<in> set (dataclass_fields (inst_class self)).
             if field_name f \<in> set paras then valid_array (getattr self f)
             else optional_str (getattr self f)" and
      vo: "\<forall>f \<in> set (dataclass_fields (inst_class self)).
             if field_name f \<in> set paras then valid_array (getattr other f)
             else optional_str (getattr other f)"
      by (auto simp: valid_record_def list_all_iff split: option.splits)
    have "\<forall>f \<in> set (dataclass_fields (inst_class self)).
       (valid_array (getattr self f) \<and> valid_array (getattr other f)) \<or>
       (optional_str (getattr self f) \<and> optional_str (getattr other f))"
    proof
      fix f assume f: "f \<in> set (dataclass_fields (inst_class self))"
      show "(valid_array (getattr self f) \<and> valid_array (getattr other f)) \<or>
            (optional_str (getattr self f) \<and> optional_str (getattr other f))"
        using vs [rule_format, OF f] vo [rule_format, OF f]
        by (cases "field_name f \<in> set paras") simp_all
    qed
    then show ?thesis
      using same [OF c] by (simp add: compare_fields_valid)
  qed
  from 1 2 3 show ?thesis by blast
qed

theorem eq_operator_semantics_witness:
  "inst_class (example_calibration LabFerraris_cls PNone) \<noteq>
     inst_class (example_calibration (FerrarisCalibrationInfo_cls [LabFerraris_cls]) PNone) \<and>
   py_eq (example_calibration (FerrarisCalibrationInfo_cls [LabFerraris_cls]) PNone)
     (example_calibration LabFerraris_cls PNone) = Inl (comparison_error LabFerraris_cls) \<and>
   py_eq (example_calibration LabFerraris_cls PNone)
     (example_calibration (FerrarisCalibrationInfo_cls [LabFerraris_cls]) PNone) =
     Inl (comparison_error LabFerraris_cls) \<and>
   valid_record (example_calibration LabFerraris_cls PNone) \<and>
   valid_record (example_calibration LabFerraris_cls (PStr ''bench 2'')) \<and>
   CAL_TYPE LabFerraris_cls = Some ''Ferraris'' \<and>
   py_eq (example_calibration LabFerraris_cls PNone) (example_calibration LabFerraris_cls PNone) =
     Inr True \<and>
   py_eq (example_calibration LabFerraris_cls PNone)
     (example_calibration LabFerraris_cls (PStr ''bench 2'')) = Inr False"
proof -
  let ?x = "example_calibration (FerrarisCalibrationInfo_cls [LabFerraris_cls]) PNone"
  let ?l = "example_calibration LabFerraris_cls PNone"
  let ?m = "example_calibration LabFerraris_cls (PStr ''bench 2'')"
  have cx: "inst_class ?x = FerrarisCalibrationInfo_cls [LabFerraris_cls]"
    and cl: "inst_class ?l = LabFerraris_cls" and cm: "inst_class ?m = LabFerraris_cls"
    by (simp_all add: example_calibration_def)
  have ne: "LabFerraris_cls \<noteq> FerrarisCalibrationInfo_cls [LabFerraris_cls]"
    by (simp add: class_defs)
  have sub: "LabFerraris_cls \<in> set (get_subclasses (FerrarisCalibrationInfo_cls [LabFerraris_cls]))"
    by (simp add: FerrarisCalibrationInfo_cls_def)
  have nsub: "FerrarisCalibrationInfo_cls [LabFerraris_cls] \<notin> set (get_subclasses LabFerraris_cls)"
    by (simp add: LabFerraris_cls_def)
  have t: "CAL_TYPE LabFerraris_cls = Some ''Ferraris''"
    by (simp add: LabFerraris_cls_def)
  have vl: "valid_record ?l"
    by (simp add: valid_record_def example_defs getattr_def valid_array_def optional_str_def)
  have vm: "valid_record ?m"
    by (simp add: valid_record_def example_defs getattr_def valid_array_def optional_str_def)
  have all_l: "\<forall>f \<in> set (dataclass_fields LabFerraris_cls). getattr ?l f = getattr ?l f"
    by simp
  have some_m: "\<not> (\<forall>f \<in> set (dataclass_fields LabFerraris_cls). getattr ?l f = getattr ?m f)"
    by (simp add: example_defs getattr_def)
  have xl: "py_eq ?x ?l = Inl (comparison_error LabFerraris_cls)"
    using eq_operator_semantics [of ?l ?x] ne sub by (simp add: cx cl)
  have lx: "py_eq ?l ?x = Inl (comparison_error LabFerraris_cls)"
    using eq_operator_semantics [of ?x ?l] ne nsub by (simp add: cx cl)
  have ll: "py_eq ?l ?l = Inr True"
    using eq_operator_semantics [of ?l ?l] vl t by (simp add: cl)
  have lm: "py_eq ?l ?m = Inr False"
    using eq_operator_semantics [of ?m ?l] vl vm t some_m by (simp add: cl cm)
  from ne xl lx vl vm t ll lm show ?thesis by (simp add: cx cl)
qed

section \<open>Arrays of finite entries and the matrices of the specification\<close>

lemmas float_defs = fadd_def fsub_def fmul_def fdiv_def fscale_def fsqrt_def
lemmas array3_defs = vmap_def vzip_def mmap_def mzip_def mat_T_def diag_of_def np_diag_def dot_def
  mat_vec_def mat_mul_def column_sums_def mean_axis0_def np_mean_def sum_axis0_def vstack_mean_def
  the_real_def is_fin_def all3_def det3_def inverse3_def np_inv_def identity3f_def

lemma ebind_eq_Inr: "ebind m f = Inr y \<longleftrightarrow> (\<exists>x. m = Inr x \<and> f x = Inr y)"
  by (cases m) (simp_all add: ebind_def)

lemma ebind_Inr: "ebind (Inr x) f = f x"
  by (simp add: ebind_def)

lemma ebind_Inl: "ebind (Inl e) f = Inl e"
  by (simp add: ebind_def)

lemma sum3: "(\<Sum>k<3. f k) = (f 0 + f 1 + f (2::nat) :: real)"
  by (simp add: numeral_3_eq_3 numeral_2_eq_2 lessThan_Suc)

lemma less3: "i < 3 \<longleftrightarrow> i = 0 \<or> i = 1 \<or> i = (2::nat)"
  by arith

lemma mat_of_eq_iff:
  "mat_of A = mat_of B \<longleftrightarrow> (\<forall>i<3. \<forall>j<3. A i j = B i j)"
  by (auto simp: mat_of_def vec_of_def less3)

lemma mat_T_of: "mat_T (mat_of A) = mat_of (spec_T A)"
  by (simp add: mat_T_def mat_of_def vec_of_def spec_T_def)

lemma mat_mul_of: "mat_mul (mat_of A) (mat_of B) = mat_of (spec_mul A B)"
  by (simp add: mat_mul_def mat_T_def mat_of_def vec_of_def spec_mul_def vmap_def dot_def
      fadd_def fmul_def sum3)

lemma mat_vec_of: "mat_vec (mat_of A) (vec_of v) = vec_of (spec_apply A v)"
  by (simp add: mat_vec_def mat_of_def vec_of_def spec_apply_def vmap_def dot_def
      fadd_def fmul_def sum3)

lemma mzip_fadd_of: "mzip fadd (mat_of A) (mat_of B) = mat_of (\<lambda>i j. A i j + B i j)"
  by (simp add: mzip_def vzip_def mat_of_def vec_of_def fadd_def)

lemma mzip_fsub_of: "mzip fsub (mat_of A) (mat_of B) = mat_of (\<lambda>i j. A i j - B i j)"
  by (simp add: mzip_def vzip_def mat_of_def vec_of_def fsub_def)

lemma vzip_fsub_of: "vzip fsub (vec_of u) (vec_of v) = vec_of (\<lambda>i. u i - v i)"
  by (simp add: vzip_def vec_of_def fsub_def)

lemma mmap_fdiv_of: "c \<noteq> 0 \<Longrightarrow> mmap (\<lambda>x. fdiv x c) (mat_of A) = mat_of (\<lambda>i j. A i j / c)"
  by (simp add: mmap_def vmap_def mat_of_def vec_of_def fdiv_def)

lemma vmap_fdiv_of: "c \<noteq> 0 \<Longrightarrow> vmap (\<lambda>x. fdiv x c) (vec_of v) = vec_of (\<lambda>i. v i / c)"
  by (simp add: vmap_def vec_of_def fdiv_def)

lemma diag_of_of: "diag_of (mat_of A) = vec_of (\<lambda>i. A i i)"
  by (simp add: diag_of_def mat_of_def vec_of_def)

lemma vmap_fscale_of: "vmap (fscale c) (vec_of v) = vec_of (\<lambda>i. c * v i)"
  by (simp add: vmap_def vec_of_def fscale_def)

lemma vmap_fsqrt_of: "\<forall>i<3. 0 \<le> v i \<Longrightarrow> vmap fsqrt (vec_of v) = vec_of (\<lambda>i. sqrt (v i))"
  by (simp add: vmap_def vec_of_def fsqrt_def not_less [symmetric] less3)

lemma np_diag_of: "np_diag (vec_of v) = mat_of (spec_diag v)"
  by (simp add: np_diag_def mat_of_def vec_of_def spec_diag_def)

lemma mean_axis0_of: "xs \<noteq> [] \<Longrightarrow> mean_axis0 xs = vec_of (segment_mean xs)"
proof -
  have "sum_list (map fst xs) = (\<Sum>s\<leftarrow>xs. comp3 s 0)"
    "sum_list (map (\<lambda>s. fst (snd s)) xs) = (\<Sum>s\<leftarrow>xs. comp3 s 1)"
    "sum_list (map (\<lambda>s. snd (snd s)) xs) = (\<Sum>s\<leftarrow>xs. comp3 s 2)"
    by (simp_all add: comp3_def case_prod_unfold)
  then show ?thesis if "xs \<noteq> []"
    using that by (simp add: mean_axis0_def column_sums_def vmap_def vec_of_def segment_mean_def)
qed

lemma means_matrix_of:
  "mat_T (vec_of (segment_mean x), vec_of (segment_mean y), vec_of (segment_mean z)) =
   mat_of (means_in_columns x y z)"
  by (simp add: mat_T_def mat_of_def vec_of_def means_in_columns_def comp3_def)

lemma np_inv_diag:
  "np_inv lapack (mat_of (spec_diag k)) =
     (if k 0 = 0 \<or> k 1 = 0 \<or> k 2 = 0 then Inl LinAlgError
      else Inr (mat_of (spec_diag (\<lambda>i. 1 / k i))))"
  by (simp add: np_inv_def mat_of_def vec_of_def spec_diag_def all3_def is_fin_def mmap_def
      vmap_def the_real_def det3_def inverse3_def)

section \<open>The three parts of the computation\<close>

lemma spec_mul_T_diag_nonneg: "0 \<le> spec_mul D (spec_T D) i i"
  by (simp add: spec_mul_def spec_T_def sum_nonneg)

lemma compute_acc_matrix_valid:
  fixes xp yp zp xa ya za :: "real vec3 list" and c :: FerrarisCalibration
  defines "U_p \<equiv> means_in_columns xp yp zp"
    and "U_n \<equiv> means_in_columns xa ya za"
  defines "D \<equiv> (\<lambda>i j. U_p i j - U_n i j)"
  defines "k \<equiv> (\<lambda>i. sqrt (spec_mul D (spec_T D) i i / (4 * (grav c)\<^sup>2)))"
  assumes "acc_x_p c = Some xp" "acc_y_p c = Some yp" "acc_z_p c = Some zp"
    and "acc_x_a c = Some xa" "acc_y_a c = Some ya" "acc_z_a c = Some za"
    and "xp \<noteq> []" "yp \<noteq> []" "zp \<noteq> []" "xa \<noteq> []" "ya \<noteq> []" "za \<noteq> []"
  shows "compute_acc_matrix lapack c cal =
     (if grav c = 0 then Inl ZeroDivisionError
      else if k 0 = 0 \<or> k 1 = 0 \<or> k 2 = 0 then Inl LinAlgError
      else Inr (cal\<lparr>b_a := Some (vec_of (\<lambda>i. (U_p i i + U_n i i) / 2)),
                    K_a := Some (mat_of (spec_diag k)),
                    R_a := Some (mat_of (\<lambda>i j. spec_mul (spec_diag (\<lambda>i. 1 / k i)) D i j / (2 * grav c)))\<rparr>))"
proof (cases "grav c = 0")
  case True
  then show ?thesis using assms(5-10)
    by (simp add: compute_acc_matrix_def np_mean_def ebind_Inr Let_def)
next
  case False
  have nn: "\<forall>i<3. 0 \<le> 1 / (4 * (grav c)\<^sup>2) * spec_mul D (spec_T D) i i"
    using spec_mul_T_diag_nonneg by simp
  have ks: "vmap fsqrt (vmap (fscale (1 / (4 * (grav c)\<^sup>2)))
               (diag_of (mat_mul (mat_of D) (mat_T (mat_of D))))) = vec_of k"
    using vmap_fsqrt_of [OF nn]
    by (simp add: mat_T_of mat_mul_of diag_of_of vmap_fscale_of k_def)
  show ?thesis
    using False assms(5-)
    by (simp add: compute_acc_matrix_def np_mean_def ebind_Inr Let_def mean_axis0_of
        means_matrix_of mzip_fadd_of mzip_fsub_of mmap_fdiv_of diag_of_of
        U_p_def [symmetric] U_n_def [symmetric] D_def [symmetric] ks np_diag_of np_inv_diag
        mat_mul_of ebind_Inl)
qed

lemma mmap_the_real_of: "mmap the_real (mat_of A) = rows_of A"
  by (simp add: mmap_def vmap_def mat_of_def vec_of_def the_real_def rows_of_def)

lemma all_fin_of: "all3 (all3 is_fin) (mat_of A)"
  by (simp add: all3_def mat_of_def vec_of_def is_fin_def)

lemma mmap_Fin_entries: "mmap Fin m = mat_of (entries m)"
  by (cases m rule: prod_cases3; cases "fst m" rule: prod_cases3; cases "fst (snd m)" rule: prod_cases3;
      cases "snd (snd m)" rule: prod_cases3)
    (simp add: mmap_def vmap_def mat_of_def vec_of_def entries_def comp3_def)

lemma np_inv_of:
  "np_inv lapack (mat_of A) =
     (if det3 (rows_of A) = 0 then Inl LinAlgError
      else Inr (mat_of (entries (inverse3 (rows_of A)))))"
  by (simp add: np_inv_def all_fin_of mmap_the_real_of mmap_Fin_entries)

lemma inverse3_is_inverse:
  assumes "det3 (rows_of A) \<noteq> 0"
  shows "spec_inverse (entries (inverse3 (rows_of A))) A"
proof -
  define d where "d = det3 (rows_of A)"
  have d: "d \<noteq> 0" using assms by (simp add: d_def)
  have dd: "d = A 0 0 * (A 1 1 * A 2 2 - A 1 2 * A 2 1) - A 0 1 * (A 1 0 * A 2 2 - A 1 2 * A 2 0)
      + A 0 2 * (A 1 0 * A 2 1 - A 1 1 * A 2 0)"
    by (simp add: d_def det3_def rows_of_def)
  have q: "x / d + y / d + z / d = t" if "x + y + z = d * t" for x y z t
    using that d by (simp add: field_simps)
  have inv: "entries (inverse3 (rows_of A)) =
    entries ((( (A 1 1 * A 2 2 - A 1 2 * A 2 1) / d, (A 0 2 * A 2 1 - A 0 1 * A 2 2) / d, (A 0 1 * A 1 2 - A 0 2 * A 1 1) / d),
              ((A 1 2 * A 2 0 - A 1 0 * A 2 2) / d, (A 0 0 * A 2 2 - A 0 2 * A 2 0) / d, (A 0 2 * A 1 0 - A 0 0 * A 1 2) / d),
              ((A 1 0 * A 2 1 - A 1 1 * A 2 0) / d, (A 0 1 * A 2 0 - A 0 0 * A 2 1) / d, (A 0 0 * A 1 1 - A 0 1 * A 1 0) / d)))"
    by (simp add: inverse3_def rows_of_def mmap_def vmap_def d_def)
  have left: "\<forall>i<3. \<forall>j<3. spec_mul (entries (inverse3 (rows_of A))) A i j = (if i = j then 1 else 0)"
    unfolding inv less3
    by (intro allI impI; elim disjE; simp add: spec_mul_def sum3 entries_def comp3_def; rule q;
        simp add: dd algebra_simps)
  have right: "\<forall>i<3. \<forall>j<3. spec_mul A (entries (inverse3 (rows_of A))) i j = (if i = j then 1 else 0)"
    unfolding inv less3
    by (intro allI impI; elim disjE; simp add: spec_mul_def sum3 entries_def comp3_def; rule q;
        simp add: dd algebra_simps)
  show ?thesis
    unfolding spec_inverse_def mat_of_eq_iff
    using left right by (simp add: spec_diag_def)
qed

lemma vmap_Fin_of: "vmap Fin s = vec_of (comp3 s)"
  by (cases s rule: prod_cases3) (simp add: vmap_def vec_of_def comp3_def)

lemma compute_gyro_offsets_valid:
  fixes xp yp zp xa ya za :: "real vec3 list" and c :: FerrarisCalibration
  assumes "gyr_x_p c = Some xp" "gyr_y_p c = Some yp" "gyr_z_p c = Some zp"
    and "gyr_x_a c = Some xa" "gyr_y_a c = Some ya" "gyr_z_a c = Some za"
    and "xp \<noteq> []" "yp \<noteq> []" "zp \<noteq> []" "xa \<noteq> []" "ya \<noteq> []" "za \<noteq> []"
    and "grav c \<noteq> 0"
  shows "compute_gyro_offsets c cal =
     Inr (cal\<lparr>b_g := Some (vec_of (segment_mean (xp @ xa @ yp @ ya @ zp @ za))),
              K_ga := Some (mat_of (\<lambda>i j. (means_in_columns xp yp zp i j -
                 means_in_columns xa ya za i j) / (2 * grav c)))\<rparr>)"
  using assms
  by (simp add: compute_gyro_offsets_def vstack_mean_def np_mean_def ebind_Inr Let_def mean_axis0_of
      means_matrix_of mzip_fsub_of mmap_fdiv_of)

lemma calibrate_acc_finite:
  assumes "R_a cal = Some (mat_of R)" "K_a cal = Some (mat_of K)" "b_a cal = Some (vec_of b)"
  shows "calibrate_acc lapack cal (Some xs) =
     (if det3 (rows_of R) = 0 \<or> det3 (rows_of K) = 0 then Inl LinAlgError
      else Inr (map vec_of (map (\<lambda>s. spec_apply
                  (spec_mul (entries (inverse3 (rows_of R))) (entries (inverse3 (rows_of K))))
                  (\<lambda>i. comp3 s i - b i)) xs)))"
  using assms
  by (simp add: calibrate_acc_def np_inv_of ebind_Inr ebind_Inl vmap_Fin_of vzip_fsub_of
      mat_mul_of mat_vec_of comp_def)

lemma calibrate_gyro_offsets_finite:
  assumes "b_g cal = Some (vec_of bg)" "K_ga cal = Some (mat_of G)"
  shows "calibrate_gyro_offsets cal (Some xs) (map vec_of as) =
     (if length xs \<noteq> length as then Inl (ValueError ''operands could not be broadcast together'')
      else Inr (map vec_of (map2 (\<lambda>g a. (\<lambda>i. comp3 g i - bg i - spec_apply G a i)) xs as)))"
proof -
  have "map2 (\<lambda>g a. vzip fsub (vzip fsub (vmap Fin g) (vec_of bg)) (mat_vec (mat_of G) a))
          xs (map vec_of as) =
        map vec_of (map2 (\<lambda>g a. (\<lambda>i. comp3 g i - bg i - spec_apply G a i)) xs as)"
    by (simp add: zip_map2 vmap_Fin_of vzip_fsub_of mat_vec_of case_prod_unfold)
  then show ?thesis
    using assms by (simp add: calibrate_gyro_offsets_def)
qed

lemma sum_axis0_of: "sum_axis0 (map vec_of vs) = vec_of (component_sum vs)"
  by (induction vs) (simp_all add: sum_axis0_def component_sum_def vec_of_def vzip_def fadd_def)

lemma expected_angles_of: "mmap (fscale e) identity3f = mat_of (spec_diag (\<lambda>i. e))"
  by (simp add: mmap_def vmap_def identity3f_def fscale_def mat_of_def vec_of_def spec_diag_def)

lemma columns_of:
  "mat_T (vec_of (\<lambda>i. u i / r), vec_of (\<lambda>i. v i / r), vec_of (\<lambda>i. w i / r)) =
   mat_of (\<lambda>i j. comp3 (u, v, w) j i / r)"
  by (simp add: mat_T_def mat_of_def vec_of_def comp3_def)

lemma compute_gyro_scaling_finite:
  fixes c :: FerrarisCalibration and gx gy gz :: "(nat \<Rightarrow> real) list"
  defines "W \<equiv> (\<lambda>i j. comp3 (component_sum gx, component_sum gy, component_sum gz) j i
                     / sampling_rate c)"
  defines "M \<equiv> spec_mul W (spec_diag (\<lambda>i. 1 / expected_angle c))"
  defines "k \<equiv> (\<lambda>i. sqrt (spec_mul M (spec_T M) i i))"
  assumes "calibrate_acc lapack cal (acc_x_rot c) = Inr ax"
    and "calibrate_acc lapack cal (acc_y_rot c) = Inr ay"
    and "calibrate_acc lapack cal (acc_z_rot c) = Inr az"
    and "calibrate_gyro_offsets cal (gyr_x_rot c) ax = Inr (map vec_of gx)"
    and "calibrate_gyro_offsets cal (gyr_y_rot c) ay = Inr (map vec_of gy)"
    and "calibrate_gyro_offsets cal (gyr_z_rot c) az = Inr (map vec_of gz)"
    and "sampling_rate c \<noteq> 0"
  shows "compute_gyro_scaling lapack c cal =
     (if expected_angle c = 0 then Inl LinAlgError
      else if k 0 = 0 \<or> k 1 = 0 \<or> k 2 = 0 then Inl LinAlgError
      else Inr (cal\<lparr>K_g := Some (mat_of (spec_diag k)),
                    R_g := Some (mat_of (spec_mul (spec_diag (\<lambda>i. 1 / k i)) M))\<rparr>))"
proof -
  have nn: "\<forall>i<3. 0 \<le> spec_mul M (spec_T M) i i"
    using spec_mul_T_diag_nonneg by simp
  have ks: "vmap fsqrt (diag_of (mat_mul (mat_of M) (mat_T (mat_of M)))) = vec_of k"
    using vmap_fsqrt_of [OF nn] by (simp add: mat_T_of mat_mul_of diag_of_of k_def)
  show ?thesis
    using assms(4-)
    by (simp add: compute_gyro_scaling_def ebind_Inr ebind_Inl Let_def sum_axis0_of vmap_fdiv_of
        columns_of W_def [symmetric] expected_angles_of np_inv_diag mat_mul_of M_def [symmetric]
        ks np_diag_of)
qed

section \<open>The computed parameters\<close>

lemmas example_input_defs = example_measurement_def FerrarisCalibration_init_def
  example_segments_def or_default_def DEFAULT_GRAV_def EXPECTED_ANGLE_def

lemma example_valid_input: "valid_input example_measurement"
  by (simp add: valid_input_def segments_def example_input_defs)

lemma example_acc_matrix:
  "compute_acc_matrix no_lapack example_measurement new_calibration_info =
   Inr (new_calibration_info\<lparr>b_a := Some (Fin 0, Fin 0, Fin 0), K_a := Some identity3f,
          R_a := Some identity3f\<rparr>)"
  by (simp add: compute_acc_matrix_def example_input_defs ebind_def float_defs array3_defs Let_def
      new_calibration_info_def power2_eq_square)

lemma example_gyro_offsets:
  "compute_gyro_offsets example_measurement
     (new_calibration_info\<lparr>b_a := Some (Fin 0, Fin 0, Fin 0), K_a := Some identity3f,
          R_a := Some identity3f\<rparr>) =
   Inr (identity_calibration\<lparr>K_g := None, R_g := None\<rparr>)"
  by (simp add: compute_gyro_offsets_def example_input_defs ebind_def float_defs array3_defs Let_def
      new_calibration_info_def identity_calibration_def)

lemma example_gyro_scaling:
  "compute_gyro_scaling no_lapack example_measurement (identity_calibration\<lparr>K_g := None, R_g := None\<rparr>) =
   Inr identity_calibration"
  by (simp add: compute_gyro_scaling_def calibrate_acc_def calibrate_gyro_offsets_def
      example_input_defs ebind_def float_defs array3_defs Let_def identity_calibration_def)

lemma example_computes:
  "compute_calibration_matrix no_lapack example_measurement = Inr identity_calibration"
  by (simp add: compute_calibration_matrix_def example_acc_matrix example_gyro_offsets
      example_gyro_scaling ebind_Inr)

lemma valid_input_segments:
  assumes "valid_input c" and "s \<in> set (segments c)"
  shows "\<exists>xs. s = Some xs \<and> xs \<noteq> []"
  using assms by (auto simp: valid_input_def list_all_iff split: option.splits)

lemma valid_input_acc_statics:
  assumes "valid_input c"
  obtains xp yp zp xa ya za where
    "acc_x_p c = Some xp" "acc_y_p c = Some yp" "acc_z_p c = Some zp"
    "acc_x_a c = Some xa" "acc_y_a c = Some ya" "acc_z_a c = Some za"
    "xp \<noteq> []" "yp \<noteq> []" "zp \<noteq> []" "xa \<noteq> []" "ya \<noteq> []" "za \<noteq> []"
  using assms by (auto simp: valid_input_def segments_def split: option.splits)

lemma valid_input_gyr_statics:
  assumes "valid_input c"
  obtains xp yp zp xa ya za where
    "gyr_x_p c = Some xp" "gyr_y_p c = Some yp" "gyr_z_p c = Some zp"
    "gyr_x_a c = Some xa" "gyr_y_a c = Some ya" "gyr_z_a c = Some za"
    "xp \<noteq> []" "yp \<noteq> []" "zp \<noteq> []" "xa \<noteq> []" "ya \<noteq> []" "za \<noteq> []"
  using assms by (auto simp: valid_input_def segments_def split: option.splits)

lemma valid_input_rotations:
  assumes "valid_input c"
  obtains ax ay az gx gy gz where
    "acc_x_rot c = Some ax" "acc_y_rot c = Some ay" "acc_z_rot c = Some az"
    "gyr_x_rot c = Some gx" "gyr_y_rot c = Some gy" "gyr_z_rot c = Some gz"
  using assms by (auto simp: valid_input_def segments_def split: option.splits)

lemma compute_gyro_offsets_keeps:
  "compute_gyro_offsets c cal = Inr cal' \<Longrightarrow>
     b_a cal' = b_a cal \<and> K_a cal' = K_a cal \<and> R_a cal' = R_a cal"
  by (auto simp: compute_gyro_offsets_def ebind_eq_Inr Let_def)

lemma compute_gyro_scaling_keeps:
  "compute_gyro_scaling lapack c cal = Inr cal' \<Longrightarrow>
     b_a cal' = b_a cal \<and> K_a cal' = K_a cal \<and> R_a cal' = R_a cal \<and>
     b_g cal' = b_g cal \<and> K_ga cal' = K_ga cal"
  by (auto simp: compute_gyro_scaling_def ebind_eq_Inr Let_def)

lemma spec_inverse_diag:
  assumes "k 0 \<noteq> 0" "k 1 \<noteq> 0" "k 2 \<noteq> 0"
  shows "spec_inverse (spec_diag (\<lambda>i. 1 / k i)) (spec_diag k)"
  unfolding spec_inverse_def mat_of_eq_iff less3
  using assms by (auto simp: spec_mul_def spec_diag_def sum3)

lemma compute_stages:
  assumes "compute_calibration_matrix lapack c = Inr r"
  obtains cal1 cal2 where
    "compute_acc_matrix lapack c new_calibration_info = Inr cal1"
    "compute_gyro_offsets c cal1 = Inr cal2"
    "compute_gyro_scaling lapack c cal2 = Inr r"
  using assms by (auto simp: compute_calibration_matrix_def ebind_eq_Inr)

text \<open>
  C1. For a valid input on which \<^verbatim>\<open>compute_calibration_matrix\<close> returns a record: with
  \<open>U_p\<close> and \<open>U_n\<close> the matrices whose columns are the means of the positive and the
  negative static segments and \<open>D = U_p - U_n\<close>, the record's \<open>b_a\<close> is the diagonal of
  \<open>(U_p + U_n) / 2\<close>, its \<open>K_a\<close> is the diagonal matrix of the square roots of the
  diagonal of \<open>D D\<^sup>T / (4 g\<^sup>2)\<close>, and its \<open>R_a\<close> is \<open>K_a\<^sup>-\<^sup>1 D / (2 g)\<close>.
\<close>

theorem accelerometer_parameters:
  fixes c :: FerrarisCalibration
  defines "U_p \<equiv> means_in_columns (the (acc_x_p c)) (the (acc_y_p c)) (the (acc_z_p c))"
  defines "U_n \<equiv> means_in_columns (the (acc_x_a c)) (the (acc_y_a c)) (the (acc_z_a c))"
  defines "D \<equiv> (\<lambda>i j. U_p i j - U_n i j)"
  defines "K \<equiv> spec_diag (\<lambda>i. sqrt (spec_mul D (spec_T D) i i / (4 * (grav c)\<^sup>2)))"
  assumes "valid_input c" and "compute_calibration_matrix lapack c = Inr r"
  shows "b_a r = Some (vec_of (\<lambda>i. (U_p i i + U_n i i) / 2)) \<and>
         K_a r = Some (mat_of K) \<and>
         (\<exists>Kinv. spec_inverse Kinv K \<and>
            R_a r = Some (mat_of (spec_mul Kinv (\<lambda>i j. D i j / (2 * grav c)))))"
proof -
  define k where "k = (\<lambda>i. sqrt (spec_mul D (spec_T D) i i / (4 * (grav c)\<^sup>2)))"
  from assms(6) obtain cal1 cal2 where
    s1: "compute_acc_matrix lapack c new_calibration_info = Inr cal1" and
    s2: "compute_gyro_offsets c cal1 = Inr cal2" and
    s3: "compute_gyro_scaling lapack c cal2 = Inr r"
    by (rule compute_stages)
  from assms(5) obtain xp yp zp xa ya za where
    a: "acc_x_p c = Some xp" "acc_y_p c = Some yp" "acc_z_p c = Some zp"
       "acc_x_a c = Some xa" "acc_y_a c = Some ya" "acc_z_a c = Some za"
       "xp \<noteq> []" "yp \<noteq> []" "zp \<noteq> []" "xa \<noteq> []" "ya \<noteq> []" "za \<noteq> []"
    by (rule valid_input_acc_statics)
  have U: "U_p = means_in_columns xp yp zp" "U_n = means_in_columns xa ya za"
    by (simp_all add: U_p_def U_n_def a)
  have ex: "compute_acc_matrix lapack c new_calibration_info =
     (if grav c = 0 then Inl ZeroDivisionError
      else if k 0 = 0 \<or> k 1 = 0 \<or> k 2 = 0 then Inl LinAlgError
      else Inr (new_calibration_info\<lparr>b_a := Some (vec_of (\<lambda>i. (U_p i i + U_n i i) / 2)),
                    K_a := Some (mat_of (spec_diag k)),
                    R_a := Some (mat_of (\<lambda>i j. spec_mul (spec_diag (\<lambda>i. 1 / k i)) D i j / (2 * grav c)))\<rparr>))"
    unfolding k_def D_def U
    by (rule compute_acc_matrix_valid) (rule a)+
  from s1 ex have g: "grav c \<noteq> 0" and kz: "k 0 \<noteq> 0" "k 1 \<noteq> 0" "k 2 \<noteq> 0"
    and c1: "cal1 = new_calibration_info\<lparr>b_a := Some (vec_of (\<lambda>i. (U_p i i + U_n i i) / 2)),
                    K_a := Some (mat_of (spec_diag k)),
                    R_a := Some (mat_of (\<lambda>i j. spec_mul (spec_diag (\<lambda>i. 1 / k i)) D i j / (2 * grav c)))\<rparr>"
    by (auto split: if_splits)
  have keep: "b_a r = b_a cal1" "K_a r = K_a cal1" "R_a r = R_a cal1"
    using compute_gyro_offsets_keeps [OF s2] compute_gyro_scaling_keeps [OF s3] by simp_all
  have R: "mat_of (\<lambda>i j. spec_mul (spec_diag (\<lambda>i. 1 / k i)) D i j / (2 * grav c)) =
           mat_of (spec_mul (spec_diag (\<lambda>i. 1 / k i)) (\<lambda>i j. D i j / (2 * grav c)))"
    unfolding mat_of_eq_iff by (simp add: spec_mul_def sum_divide_distrib)
  have "spec_inverse (spec_diag (\<lambda>i. 1 / k i)) K"
    unfolding K_def k_def [symmetric] using kz by (rule spec_inverse_diag)
  moreover have "R_a r = Some (mat_of (spec_mul (spec_diag (\<lambda>i. 1 / k i)) (\<lambda>i j. D i j / (2 * grav c))))"
    using keep c1 R by simp
  moreover have "b_a r = Some (vec_of (\<lambda>i. (U_p i i + U_n i i) / 2))" "K_a r = Some (mat_of K)"
    using keep c1 by (simp_all add: K_def k_def)
  ultimately show ?thesis by blast
qed

theorem accelerometer_parameters_witness:
  "valid_input example_measurement \<and>
   compute_calibration_matrix no_lapack example_measurement = Inr identity_calibration \<and>
   b_a identity_calibration = Some (vec_of (\<lambda>i.
     (means_in_columns (the (acc_x_p example_measurement)) (the (acc_y_p example_measurement))
        (the (acc_z_p example_measurement)) i i +
      means_in_columns (the (acc_x_a example_measurement)) (the (acc_y_a example_measurement))
        (the (acc_z_a example_measurement)) i i) / 2)) \<and>
   K_a identity_calibration = Some (mat_of (spec_diag (\<lambda>i. sqrt
     (spec_mul
        (\<lambda>i j. means_in_columns (the (acc_x_p example_measurement)) (the (acc_y_p example_measurement))
                  (the (acc_z_p example_measurement)) i j -
                means_in_columns (the (acc_x_a example_measurement)) (the (acc_y_a example_measurement))
                  (the (acc_z_a example_measurement)) i j)
        (spec_T
           (\<lambda>i j. means_in_columns (the (acc_x_p example_measurement)) (the (acc_y_p example_measurement))
                     (the (acc_z_p example_measurement)) i j -
                   means_in_columns (the (acc_x_a example_measurement)) (the (acc_y_a example_measurement))
                     (the (acc_z_a example_measurement)) i j)) i i
      / (4 * (grav example_measurement)\<^sup>2)))))"
  using accelerometer_parameters [OF example_valid_input example_computes]
    example_valid_input example_computes
  by blast

lemma gyro_scaling_steps:
  assumes "compute_gyro_scaling lapack c cal = Inr r"
  obtains ax ay az gx gy gz where
    "calibrate_acc lapack cal (acc_x_rot c) = Inr ax"
    "calibrate_acc lapack cal (acc_y_rot c) = Inr ay"
    "calibrate_acc lapack cal (acc_z_rot c) = Inr az"
    "calibrate_gyro_offsets cal (gyr_x_rot c) ax = Inr gx"
    "calibrate_gyro_offsets cal (gyr_y_rot c) ay = Inr gy"
    "calibrate_gyro_offsets cal (gyr_z_rot c) az = Inr gz"
  using assms by (auto simp: compute_gyro_scaling_def ebind_eq_Inr)

lemma calibrate_acc_cong:
  "R_a a = R_a b \<Longrightarrow> K_a a = K_a b \<Longrightarrow> b_a a = b_a b \<Longrightarrow>
     calibrate_acc lapack a seg = calibrate_acc lapack b seg"
  by (simp add: calibrate_acc_def cong: option.case_cong)

lemma calibrate_gyro_offsets_cong:
  "b_g a = b_g b \<Longrightarrow> K_ga a = K_ga b \<Longrightarrow>
     calibrate_gyro_offsets a seg acc = calibrate_gyro_offsets b seg acc"
  by (simp add: calibrate_gyro_offsets_def cong: option.case_cong)

lemma calibrate_acc_finite_result:
  assumes "R_a cal = Some (mat_of R)" "K_a cal = Some (mat_of K)" "b_a cal = Some (vec_of b)"
    and "calibrate_acc lapack cal (Some xs) = Inr ys"
  shows "\<exists>zs. ys = map vec_of zs"
proof -
  from assms(4) have "ys = map vec_of (map (\<lambda>s. spec_apply
      (spec_mul (entries (inverse3 (rows_of R))) (entries (inverse3 (rows_of K))))
      (\<lambda>i. comp3 s i - b i)) xs)"
    unfolding calibrate_acc_finite [OF assms(1-3)] by (simp split: if_splits)
  then show ?thesis by blast
qed

lemma calibrate_gyro_offsets_finite_result:
  assumes "b_g cal = Some (vec_of bg)" "K_ga cal = Some (mat_of G)"
    and "calibrate_gyro_offsets cal (Some xs) (map vec_of as) = Inr ys"
  shows "ys = map vec_of (map2 (\<lambda>g a. (\<lambda>i. comp3 g i - bg i - spec_apply G a i)) xs as)"
  using assms(3) unfolding calibrate_gyro_offsets_finite [OF assms(1-2)]
  by (auto split: if_splits)

lemma compute_result_explicit:
  fixes c :: FerrarisCalibration
  assumes "valid_input c" and "compute_calibration_matrix lapack c = Inr r"
  shows "\<exists>ka ax ay az gx gy gz bg G W M k.
     grav c \<noteq> 0 \<and> expected_angle c \<noteq> 0 \<and>
     K_a r = Some (mat_of (spec_diag ka)) \<and> ka 0 \<noteq> 0 \<and> ka 1 \<noteq> 0 \<and> ka 2 \<noteq> 0 \<and>
     calibrate_acc lapack r (acc_x_rot c) = Inr (map vec_of ax) \<and>
     calibrate_acc lapack r (acc_y_rot c) = Inr (map vec_of ay) \<and>
     calibrate_acc lapack r (acc_z_rot c) = Inr (map vec_of az) \<and>
     b_g r = Some (vec_of bg) \<and> K_ga r = Some (mat_of G) \<and>
     gx = map2 (\<lambda>g a. (\<lambda>i. comp3 g i - bg i - spec_apply G a i)) (the (gyr_x_rot c)) ax \<and>
     gy = map2 (\<lambda>g a. (\<lambda>i. comp3 g i - bg i - spec_apply G a i)) (the (gyr_y_rot c)) ay \<and>
     gz = map2 (\<lambda>g a. (\<lambda>i. comp3 g i - bg i - spec_apply G a i)) (the (gyr_z_rot c)) az \<and>
     calibrate_gyro_offsets r (gyr_x_rot c) (map vec_of ax) = Inr (map vec_of gx) \<and>
     calibrate_gyro_offsets r (gyr_y_rot c) (map vec_of ay) = Inr (map vec_of gy) \<and>
     calibrate_gyro_offsets r (gyr_z_rot c) (map vec_of az) = Inr (map vec_of gz) \<and>
     W = (\<lambda>i j. comp3 (component_sum gx, component_sum gy, component_sum gz) j i
                 / sampling_rate c) \<and>
     M = spec_mul W (spec_diag (\<lambda>i. 1 / expected_angle c)) \<and>
     k = (\<lambda>i. sqrt (spec_mul M (spec_T M) i i)) \<and>
     k 0 \<noteq> 0 \<and> k 1 \<noteq> 0 \<and> k 2 \<noteq> 0 \<and>
     K_g r = Some (mat_of (spec_diag k)) \<and>
     R_g r = Some (mat_of (spec_mul (spec_diag (\<lambda>i. 1 / k i)) M))"
proof -
  from assms(2) obtain cal1 cal2 where
    s1: "compute_acc_matrix lapack c new_calibration_info = Inr cal1" and
    s2: "compute_gyro_offsets c cal1 = Inr cal2" and
    s3: "compute_gyro_scaling lapack c cal2 = Inr r"
    by (rule compute_stages)
  from assms(1) obtain xp yp zp xa ya za where
    a: "acc_x_p c = Some xp" "acc_y_p c = Some yp" "acc_z_p c = Some zp"
       "acc_x_a c = Some xa" "acc_y_a c = Some ya" "acc_z_a c = Some za"
       "xp \<noteq> []" "yp \<noteq> []" "zp \<noteq> []" "xa \<noteq> []" "ya \<noteq> []" "za \<noteq> []"
    by (rule valid_input_acc_statics)
  from assms(1) obtain up vp wp ua va wa where
    g: "gyr_x_p c = Some up" "gyr_y_p c = Some vp" "gyr_z_p c = Some wp"
       "gyr_x_a c = Some ua" "gyr_y_a c = Some va" "gyr_z_a c = Some wa"
       "up \<noteq> []" "vp \<noteq> []" "wp \<noteq> []" "ua \<noteq> []" "va \<noteq> []" "wa \<noteq> []"
    by (rule valid_input_gyr_statics)
  from assms(1) obtain rax ray raz rgx rgy rgz where
    rot: "acc_x_rot c = Some rax" "acc_y_rot c = Some ray" "acc_z_rot c = Some raz"
         "gyr_x_rot c = Some rgx" "gyr_y_rot c = Some rgy" "gyr_z_rot c = Some rgz"
    by (rule valid_input_rotations)
  have rate: "sampling_rate c \<noteq> 0"
    using assms(1) by (simp add: valid_input_def)
  define D where "D = (\<lambda>i j. means_in_columns xp yp zp i j - means_in_columns xa ya za i j)"
  define ka where "ka = (\<lambda>i. sqrt (spec_mul D (spec_T D) i i / (4 * (grav c)\<^sup>2)))"
  have ex1: "compute_acc_matrix lapack c new_calibration_info =
     (if grav c = 0 then Inl ZeroDivisionError
      else if ka 0 = 0 \<or> ka 1 = 0 \<or> ka 2 = 0 then Inl LinAlgError
      else Inr (new_calibration_info\<lparr>b_a := Some (vec_of (\<lambda>i.
                      (means_in_columns xp yp zp i i + means_in_columns xa ya za i i) / 2)),
                    K_a := Some (mat_of (spec_diag ka)),
                    R_a := Some (mat_of (\<lambda>i j. spec_mul (spec_diag (\<lambda>i. 1 / ka i)) D i j / (2 * grav c)))\<rparr>))"
    unfolding ka_def D_def
    by (rule compute_acc_matrix_valid) (rule a)+
  from s1 have grav: "grav c \<noteq> 0" and kaz: "ka 0 \<noteq> 0" "ka 1 \<noteq> 0" "ka 2 \<noteq> 0"
    unfolding ex1 by (auto split: if_splits)
  from s1 obtain ba Ra where
    f1: "b_a cal1 = Some (vec_of ba)" "K_a cal1 = Some (mat_of (spec_diag ka))"
        "R_a cal1 = Some (mat_of Ra)"
    unfolding ex1 by (auto split: if_splits)
  note ex2 = compute_gyro_offsets_valid [OF g grav, of cal1]
  from s2 obtain bg G where
    f2: "b_g cal2 = Some (vec_of bg)" "K_ga cal2 = Some (mat_of G)"
    unfolding ex2 by auto
  have k2: "b_a cal2 = b_a cal1" "K_a cal2 = K_a cal1" "R_a cal2 = R_a cal1"
    using compute_gyro_offsets_keeps [OF s2] by simp_all
  have k3: "b_a r = b_a cal2" "K_a r = K_a cal2" "R_a r = R_a cal2" "b_g r = b_g cal2"
    "K_ga r = K_ga cal2"
    using compute_gyro_scaling_keeps [OF s3] by simp_all
  from s3 obtain ax' ay' az' gx' gy' gz' where
    st: "calibrate_acc lapack cal2 (acc_x_rot c) = Inr ax'"
        "calibrate_acc lapack cal2 (acc_y_rot c) = Inr ay'"
        "calibrate_acc lapack cal2 (acc_z_rot c) = Inr az'"
        "calibrate_gyro_offsets cal2 (gyr_x_rot c) ax' = Inr gx'"
        "calibrate_gyro_offsets cal2 (gyr_y_rot c) ay' = Inr gy'"
        "calibrate_gyro_offsets cal2 (gyr_z_rot c) az' = Inr gz'"
    by (rule gyro_scaling_steps)
  have fa: "R_a cal2 = Some (mat_of Ra)" "K_a cal2 = Some (mat_of (spec_diag ka))"
    "b_a cal2 = Some (vec_of ba)"
    using f1 k2 by simp_all
  obtain ax where ax: "ax' = map vec_of ax"
    using calibrate_acc_finite_result [OF fa st(1) [unfolded rot]] by blast
  obtain ay where ay: "ay' = map vec_of ay"
    using calibrate_acc_finite_result [OF fa st(2) [unfolded rot]] by blast
  obtain az where az: "az' = map vec_of az"
    using calibrate_acc_finite_result [OF fa st(3) [unfolded rot]] by blast
  define off where "off = (\<lambda>(g :: real vec3) (a :: nat \<Rightarrow> real). (\<lambda>i. comp3 g i - bg i - spec_apply G a i))"
  define gx where "gx = map2 off rgx ax"
  define gy where "gy = map2 off rgy ay"
  define gz where "gz = map2 off rgz az"
  have gx': "gx' = map vec_of gx"
    using calibrate_gyro_offsets_finite_result [OF f2 st(4) [unfolded rot ax]]
    by (simp add: gx_def off_def)
  have gy': "gy' = map vec_of gy"
    using calibrate_gyro_offsets_finite_result [OF f2 st(5) [unfolded rot ay]]
    by (simp add: gy_def off_def)
  have gz': "gz' = map vec_of gz"
    using calibrate_gyro_offsets_finite_result [OF f2 st(6) [unfolded rot az]]
    by (simp add: gz_def off_def)
  define W where "W = (\<lambda>i j. comp3 (component_sum gx, component_sum gy, component_sum gz) j i
                 / sampling_rate c)"
  define M where "M = spec_mul W (spec_diag (\<lambda>i. 1 / expected_angle c))"
  define k where "k = (\<lambda>i. sqrt (spec_mul M (spec_T M) i i))"
  note fin = st [unfolded ax ay az gx' gy' gz']
  have ex3: "compute_gyro_scaling lapack c cal2 =
     (if expected_angle c = 0 then Inl LinAlgError
      else if k 0 = 0 \<or> k 1 = 0 \<or> k 2 = 0 then Inl LinAlgError
      else Inr (cal2\<lparr>K_g := Some (mat_of (spec_diag k)),
                    R_g := Some (mat_of (spec_mul (spec_diag (\<lambda>i. 1 / k i)) M))\<rparr>))"
    unfolding k_def M_def W_def
    by (rule compute_gyro_scaling_finite) (rule fin rate)+
  from s3 have e: "expected_angle c \<noteq> 0" and kz: "k 0 \<noteq> 0" "k 1 \<noteq> 0" "k 2 \<noteq> 0"
    and r: "r = cal2\<lparr>K_g := Some (mat_of (spec_diag k)),
                  R_g := Some (mat_of (spec_mul (spec_diag (\<lambda>i. 1 / k i)) M))\<rparr>"
    unfolding ex3 by (auto split: if_splits)
  have 1: "calibrate_acc lapack r (acc_x_rot c) = Inr (map vec_of ax)"
      "calibrate_acc lapack r (acc_y_rot c) = Inr (map vec_of ay)"
      "calibrate_acc lapack r (acc_z_rot c) = Inr (map vec_of az)"
    using fin(1-3) calibrate_acc_cong [OF k3(3) k3(2) k3(1)] by simp_all
  have 2: "b_g r = Some (vec_of bg)" "K_ga r = Some (mat_of G)"
    using k3 f2 by simp_all
  have 3: "gx = map2 (\<lambda>g a. (\<lambda>i. comp3 g i - bg i - spec_apply G a i)) (the (gyr_x_rot c)) ax"
      "gy = map2 (\<lambda>g a. (\<lambda>i. comp3 g i - bg i - spec_apply G a i)) (the (gyr_y_rot c)) ay"
      "gz = map2 (\<lambda>g a. (\<lambda>i. comp3 g i - bg i - spec_apply G a i)) (the (gyr_z_rot c)) az"
    by (simp_all add: gx_def gy_def gz_def off_def rot)
  have 4: "calibrate_gyro_offsets r (gyr_x_rot c) (map vec_of ax) = Inr (map vec_of gx)"
      "calibrate_gyro_offsets r (gyr_y_rot c) (map vec_of ay) = Inr (map vec_of gy)"
      "calibrate_gyro_offsets r (gyr_z_rot c) (map vec_of az) = Inr (map vec_of gz)"
    using fin(4-6) calibrate_gyro_offsets_cong [OF k3(4) k3(5)] by simp_all
  have 5: "K_a r = Some (mat_of (spec_diag ka))"
    using k3 fa by simp
  have 7: "K_g r = Some (mat_of (spec_diag k))"
      "R_g r = Some (mat_of (spec_mul (spec_diag (\<lambda>i. 1 / k i)) M))"
    by (simp_all add: r)
  show ?thesis
    using grav e kaz kz 1 2 3 4 5 7 W_def M_def k_def by blast
qed

text \<open>
  C2. For a valid input on which \<^verbatim>\<open>compute_calibration_matrix\<close> returns a record \<open>r\<close>:
  the acceleration samples of each rotation segment are corrected with the accelerometer
  transform of \<open>r\<close> (\<open>ax\<close>, \<open>ay\<close>, \<open>az\<close>); from each gyroscope sample the bias and the
  acceleration sensitivity are removed as \<open>g - b_g - K_ga a\<close> (\<open>gx\<close>, \<open>gy\<close>, \<open>gz\<close>);
  column \<open>j\<close> of \<open>W\<close> is the sum of the corrected samples of rotation \<open>j\<close> divided by the
  sampling rate; \<open>M = W E\<^sup>-\<^sup>1\<close> for the matrix \<open>E\<close> of the expected angle; \<open>K_g\<close> is the
  diagonal matrix of the square roots of the diagonal of \<open>M M\<^sup>T\<close>, and \<open>R_g\<close> is
  \<open>K_g\<^sup>-\<^sup>1 M\<close>.
\<close>

theorem gyroscope_parameters:
  fixes c :: FerrarisCalibration
  assumes "valid_input c" and "compute_calibration_matrix lapack c = Inr r"
  shows "\<exists>ax ay az gx gy gz bg G W Einv M K Kinv.
     calibrate_acc lapack r (acc_x_rot c) = Inr (map vec_of ax) \<and>
     calibrate_acc lapack r (acc_y_rot c) = Inr (map vec_of ay) \<and>
     calibrate_acc lapack r (acc_z_rot c) = Inr (map vec_of az) \<and>
     b_g r = Some (vec_of bg) \<and> K_ga r = Some (mat_of G) \<and>
     gx = map2 (\<lambda>g a. (\<lambda>i. comp3 g i - bg i - spec_apply G a i)) (the (gyr_x_rot c)) ax \<and>
     gy = map2 (\<lambda>g a. (\<lambda>i. comp3 g i - bg i - spec_apply G a i)) (the (gyr_y_rot c)) ay \<and>
     gz = map2 (\<lambda>g a. (\<lambda>i. comp3 g i - bg i - spec_apply G a i)) (the (gyr_z_rot c)) az \<and>
     calibrate_gyro_offsets r (gyr_x_rot c) (map vec_of ax) = Inr (map vec_of gx) \<and>
     calibrate_gyro_offsets r (gyr_y_rot c) (map vec_of ay) = Inr (map vec_of gy) \<and>
     calibrate_gyro_offsets r (gyr_z_rot c) (map vec_of az) = Inr (map vec_of gz) \<and>
     W = (\<lambda>i j. comp3 (component_sum gx, component_sum gy, component_sum gz) j i
                 / sampling_rate c) \<and>
     spec_inverse Einv (spec_diag (\<lambda>i. expected_angle c)) \<and>
     M = spec_mul W Einv \<and>
     K = spec_diag (\<lambda>i. sqrt (spec_mul M (spec_T M) i i)) \<and>
     K_g r = Some (mat_of K) \<and>
     spec_inverse Kinv K \<and>
     R_g r = Some (mat_of (spec_mul Kinv M))"
proof -
  from compute_result_explicit [OF assms] obtain ax ay az gx gy gz bg G W M k where
    h: "expected_angle c \<noteq> 0"
     "calibrate_acc lapack r (acc_x_rot c) = Inr (map vec_of ax)"
     "calibrate_acc lapack r (acc_y_rot c) = Inr (map vec_of ay)"
     "calibrate_acc lapack r (acc_z_rot c) = Inr (map vec_of az)"
     "b_g r = Some (vec_of bg)" "K_ga r = Some (mat_of G)"
     "gx = map2 (\<lambda>g a. (\<lambda>i. comp3 g i - bg i - spec_apply G a i)) (the (gyr_x_rot c)) ax"
     "gy = map2 (\<lambda>g a. (\<lambda>i. comp3 g i - bg i - spec_apply G a i)) (the (gyr_y_rot c)) ay"
     "gz = map2 (\<lambda>g a. (\<lambda>i. comp3 g i - bg i - spec_apply G a i)) (the (gyr_z_rot c)) az"
     "calibrate_gyro_offsets r (gyr_x_rot c) (map vec_of ax) = Inr (map vec_of gx)"
     "calibrate_gyro_offsets r (gyr_y_rot c) (map vec_of ay) = Inr (map vec_of gy)"
     "calibrate_gyro_offsets r (gyr_z_rot c) (map vec_of az) = Inr (map vec_of gz)"
     "W = (\<lambda>i j. comp3 (component_sum gx, component_sum gy, component_sum gz) j i
                 / sampling_rate c)"
     "M = spec_mul W (spec_diag (\<lambda>i. 1 / expected_angle c))"
     "k = (\<lambda>i. sqrt (spec_mul M (spec_T M) i i))"
     "k 0 \<noteq> 0" "k 1 \<noteq> 0" "k 2 \<noteq> 0"
     "K_g r = Some (mat_of (spec_diag k))"
     "R_g r = Some (mat_of (spec_mul (spec_diag (\<lambda>i. 1 / k i)) M))"
    by blast
  have e: "spec_inverse (spec_diag (\<lambda>i. 1 / expected_angle c)) (spec_diag (\<lambda>i. expected_angle c))"
    using h(1) by (intro spec_inverse_diag) simp_all
  have kinv: "spec_inverse (spec_diag (\<lambda>i. 1 / k i)) (spec_diag k)"
    using h(16-18) by (rule spec_inverse_diag)
  have K: "spec_diag k = spec_diag (\<lambda>i. sqrt (spec_mul M (spec_T M) i i))"
    using h(15) by simp
  show ?thesis
    using h(2-14) e kinv K h(19,20) by blast
qed

theorem gyroscope_parameters_witness:
  "valid_input example_measurement \<and>
   compute_calibration_matrix no_lapack example_measurement = Inr identity_calibration \<and>
   (\<exists>ax ay az gx gy gz bg G W Einv M K Kinv.
     calibrate_acc no_lapack identity_calibration (acc_x_rot example_measurement) = Inr (map vec_of ax) \<and>
     calibrate_acc no_lapack identity_calibration (acc_y_rot example_measurement) = Inr (map vec_of ay) \<and>
     calibrate_acc no_lapack identity_calibration (acc_z_rot example_measurement) = Inr (map vec_of az) \<and>
     b_g identity_calibration = Some (vec_of bg) \<and> K_ga identity_calibration = Some (mat_of G) \<and>
     gx = map2 (\<lambda>g a. (\<lambda>i. comp3 g i - bg i - spec_apply G a i)) (the (gyr_x_rot example_measurement)) ax \<and>
     gy = map2 (\<lambda>g a. (\<lambda>i. comp3 g i - bg i - spec_apply G a i)) (the (gyr_y_rot example_measurement)) ay \<and>
     gz = map2 (\<lambda>g a. (\<lambda>i. comp3 g i - bg i - spec_apply G a i)) (the (gyr_z_rot example_measurement)) az \<and>
     calibrate_gyro_offsets identity_calibration (gyr_x_rot example_measurement) (map vec_of ax) = Inr (map vec_of gx) \<and>
     calibrate_gyro_offsets identity_calibration (gyr_y_rot example_measurement) (map vec_of ay) = Inr (map vec_of gy) \<and>
     calibrate_gyro_offsets identity_calibration (gyr_z_rot example_measurement) (map vec_of az) = Inr (map vec_of gz) \<and>
     W = (\<lambda>i j. comp3 (component_sum gx, component_sum gy, component_sum gz) j i
                 / sampling_rate example_measurement) \<and>
     spec_inverse Einv (spec_diag (\<lambda>i. expected_angle example_measurement)) \<and>
     M = spec_mul W Einv \<and>
     K = spec_diag (\<lambda>i. sqrt (spec_mul M (spec_T M) i i)) \<and>
     K_g identity_calibration = Some (mat_of K) \<and>
     spec_inverse Kinv K \<and>
     R_g identity_calibration = Some (mat_of (spec_mul Kinv M)))"
  using gyroscope_parameters [OF example_valid_input example_computes]
    example_valid_input example_computes
  by blast

section \<open>Constants, missing and degenerate input\<close>

text \<open>
  C10. The constructor stores 9.81 for a gravity that is \<^verbatim>\<open>None\<close> or 0 and 360 for an
  expected angle that is \<^verbatim>\<open>None\<close> or 0, and the given value otherwise; so neither stored
  constant is ever zero.
\<close>

theorem init_replaces_falsy_constants:
  "grav (FerrarisCalibration_init rate g angle kwargs) =
     (if g = None \<or> g = Some 0 then 981 / 100 else the g) \<and>
   expected_angle (FerrarisCalibration_init rate g angle kwargs) =
     (if angle = None \<or> angle = Some 0 then 360 else the angle) \<and>
   grav (FerrarisCalibration_init rate g angle kwargs) \<noteq> 0 \<and>
   expected_angle (FerrarisCalibration_init rate g angle kwargs) \<noteq> 0"
  by (auto simp: FerrarisCalibration_init_def or_default_def DEFAULT_GRAV_def EXPECTED_ANGLE_def
      split: option.splits)

lemma isl_ebind: "isl (ebind m f) \<longleftrightarrow> (case m of Inl e \<Rightarrow> True | Inr x \<Rightarrow> isl (f x))"
  by (cases m) (simp_all add: ebind_def)

lemma isl_exists: "isl m \<longleftrightarrow> (\<exists>e. m = Inl e)"
  by (cases m) simp_all

lemma compute_acc_matrix_missing:
  assumes "acc_x_p c = None \<or> acc_y_p c = None \<or> acc_z_p c = None \<or>
           acc_x_a c = None \<or> acc_y_a c = None \<or> acc_z_a c = None"
  shows "isl (compute_acc_matrix lapack c cal)"
  using assms
  by (auto simp: compute_acc_matrix_def np_mean_def isl_ebind split: option.splits sum.splits)

lemma compute_gyro_offsets_missing:
  assumes "gyr_x_p c = None \<or> gyr_y_p c = None \<or> gyr_z_p c = None \<or>
           gyr_x_a c = None \<or> gyr_y_a c = None \<or> gyr_z_a c = None"
  shows "isl (compute_gyro_offsets c cal)"
  using assms
  by (auto simp: compute_gyro_offsets_def vstack_mean_def isl_ebind split: sum.splits)

lemma calibrate_acc_missing: "isl (calibrate_acc lapack cal None)"
  by (simp add: calibrate_acc_def isl_ebind split: option.splits sum.splits)

lemma calibrate_gyro_offsets_missing: "calibrate_gyro_offsets cal None a = Inl TypeError"
  by (simp add: calibrate_gyro_offsets_def)

lemma calibrate_acc_missing_Inr: "calibrate_acc lapack cal None \<noteq> Inr x"
  using calibrate_acc_missing [of lapack cal] by (auto simp: isl_exists)

lemma compute_gyro_scaling_missing:
  assumes "acc_x_rot c = None \<or> acc_y_rot c = None \<or> acc_z_rot c = None \<or>
           gyr_x_rot c = None \<or> gyr_y_rot c = None \<or> gyr_z_rot c = None"
  shows "isl (compute_gyro_scaling lapack c cal)"
  using assms unfolding compute_gyro_scaling_def
  by (auto simp: isl_ebind calibrate_acc_missing_Inr calibrate_gyro_offsets_missing
      split: sum.splits)

lemma compute_calibration_matrix_isl:
  assumes "isl (compute_acc_matrix lapack c new_calibration_info) \<or>
           (\<forall>cal. isl (compute_gyro_offsets c cal)) \<or>
           (\<forall>cal. isl (compute_gyro_scaling lapack c cal))"
  shows "isl (compute_calibration_matrix lapack c)"
proof (cases "compute_acc_matrix lapack c new_calibration_info")
  case (Inl e)
  then show ?thesis by (simp add: compute_calibration_matrix_def ebind_Inl)
next
  case s1: (Inr cal1)
  show ?thesis
  proof (cases "compute_gyro_offsets c cal1")
    case (Inl e)
    then show ?thesis using s1 by (simp add: compute_calibration_matrix_def ebind_Inl ebind_Inr)
  next
    case s2: (Inr cal2)
    from assms s1 s2 have "isl (compute_gyro_scaling lapack c cal2)"
      by (metis isl_exists sum.distinct(1))
    then show ?thesis using s1 s2 by (simp add: compute_calibration_matrix_def ebind_Inr)
  qed
qed

text \<open>
  C3 (as amended). If one of the eighteen segments (nine labels, two sensors) is missing,
  \<^verbatim>\<open>compute_calibration_matrix\<close> raises and returns no record.
\<close>

theorem missing_segment_raises:
  assumes "None \<in> set (segments c)"
  shows "\<exists>e. compute_calibration_matrix lapack c = Inl e"
proof -
  from assms consider
    "acc_x_p c = None \<or> acc_y_p c = None \<or> acc_z_p c = None \<or>
     acc_x_a c = None \<or> acc_y_a c = None \<or> acc_z_a c = None"
    | "gyr_x_p c = None \<or> gyr_y_p c = None \<or> gyr_z_p c = None \<or>
       gyr_x_a c = None \<or> gyr_y_a c = None \<or> gyr_z_a c = None"
    | "acc_x_rot c = None \<or> acc_y_rot c = None \<or> acc_z_rot c = None \<or>
       gyr_x_rot c = None \<or> gyr_y_rot c = None \<or> gyr_z_rot c = None"
    unfolding segments_def by (simp only: set_simps insert_iff empty_iff) metis
  then have "isl (compute_calibration_matrix lapack c)"
  proof cases
    case 1
    then show ?thesis
      using compute_acc_matrix_missing [OF 1] by (intro compute_calibration_matrix_isl) blast
  next
    case 2
    then show ?thesis
      using compute_gyro_offsets_missing [OF 2] by (intro compute_calibration_matrix_isl) blast
  next
    case 3
    then show ?thesis
      using compute_gyro_scaling_missing [OF 3] by (intro compute_calibration_matrix_isl) blast
  qed
  then show ?thesis by (simp add: isl_exists)
qed
theorem missing_segment_raises_witness:
  "None \<in> set (segments missing_rotation_measurement) \<and>
   (\<exists>e. compute_calibration_matrix no_lapack missing_rotation_measurement = Inl e)"
proof -
  have "acc_z_rot missing_rotation_measurement = None"
    by (simp add: missing_rotation_measurement_def FerrarisCalibration_init_def
        example_segments_def)
  then have m: "None \<in> set (segments missing_rotation_measurement)"
    by (simp add: segments_def)
  from missing_segment_raises [OF m] m show ?thesis by blast
qed

lemmas empty_rotation_defs = empty_rotation_measurement_def FerrarisCalibration_init_def
  example_segments_def or_default_def DEFAULT_GRAV_def EXPECTED_ANGLE_def

lemma empty_rotation_acc_matrix:
  "compute_acc_matrix no_lapack empty_rotation_measurement new_calibration_info =
   Inr (new_calibration_info\<lparr>b_a := Some (Fin 0, Fin 0, Fin 0), K_a := Some identity3f,
          R_a := Some identity3f\<rparr>)"
  by (simp add: compute_acc_matrix_def empty_rotation_defs ebind_def float_defs array3_defs Let_def
      new_calibration_info_def power2_eq_square)

lemma empty_rotation_gyro_offsets:
  "compute_gyro_offsets empty_rotation_measurement
     (new_calibration_info\<lparr>b_a := Some (Fin 0, Fin 0, Fin 0), K_a := Some identity3f,
          R_a := Some identity3f\<rparr>) =
   Inr (identity_calibration\<lparr>K_g := None, R_g := None\<rparr>)"
  by (simp add: compute_gyro_offsets_def empty_rotation_defs ebind_def float_defs array3_defs Let_def
      new_calibration_info_def identity_calibration_def)

lemma empty_rotation_gyro_scaling:
  "compute_gyro_scaling no_lapack empty_rotation_measurement
     (identity_calibration\<lparr>K_g := None, R_g := None\<rparr>) =
   Inr (identity_calibration\<lparr>R_g :=
          Some ((Fin 0, Fin 1, Fin 0), (Fin 0, Fin 1, Fin 0), (Fin 0, Fin 0, Fin 1))\<rparr>)"
  by (simp add: compute_gyro_scaling_def calibrate_acc_def calibrate_gyro_offsets_def
      empty_rotation_defs ebind_def float_defs array3_defs Let_def identity_calibration_def)

text \<open>
  The claim C3 as stated fails for an empty segment: with no samples in the two segments
  of the rotation about \<open>x\<close> (and a rotation about \<open>y\<close> that also turns the \<open>x\<close> axis of
  the gyroscope) the sums over the empty segment are zero, no step raises, and a record is
  returned.
\<close>

theorem empty_rotation_returns_record:
  "acc_x_rot empty_rotation_measurement = Some [] \<and>
   gyr_x_rot empty_rotation_measurement = Some [] \<and>
   compute_calibration_matrix no_lapack empty_rotation_measurement =
     Inr (identity_calibration\<lparr>R_g :=
            Some ((Fin 0, Fin 1, Fin 0), (Fin 0, Fin 1, Fin 0), (Fin 0, Fin 0, Fin 1))\<rparr>)"
proof -
  have "acc_x_rot empty_rotation_measurement = Some []"
    "gyr_x_rot empty_rotation_measurement = Some []"
    by (simp_all add: empty_rotation_defs)
  moreover have "compute_calibration_matrix no_lapack empty_rotation_measurement =
     Inr (identity_calibration\<lparr>R_g :=
            Some ((Fin 0, Fin 1, Fin 0), (Fin 0, Fin 1, Fin 0), (Fin 0, Fin 0, Fin 1))\<rparr>)"
    by (simp add: compute_calibration_matrix_def empty_rotation_acc_matrix
        empty_rotation_gyro_offsets empty_rotation_gyro_scaling ebind_Inr)
  ultimately show ?thesis by simp
qed

lemma zero_row_scale:
  assumes "\<forall>j<3. D i j = 0"
  shows "sqrt (spec_mul D (spec_T D) i i / (4 * g\<^sup>2)) = 0"
  using assms by (simp add: spec_mul_def spec_T_def)

text \<open>
  C9 (as amended). For a valid input: when gravity is not zero and the positive and the
  negative static means agree in one component for all three axes (a zero row of \<open>D\<close>, a
  zero scale factor), \<^verbatim>\<open>compute_calibration_matrix\<close> raises \<^verbatim>\<open>LinAlgError\<close>; and whenever
  it returns a record, gravity and the expected angle stored in the object are not zero
  and no scale factor of \<open>K_a\<close> or \<open>K_g\<close> is zero.
\<close>

theorem degenerate_scale_raises:
  fixes c :: FerrarisCalibration
  defines "D \<equiv> (\<lambda>i j.
      means_in_columns (the (acc_x_p c)) (the (acc_y_p c)) (the (acc_z_p c)) i j -
      means_in_columns (the (acc_x_a c)) (the (acc_y_a c)) (the (acc_z_a c)) i j)"
  assumes "valid_input c"
  shows "(grav c \<noteq> 0 \<and> (\<exists>i<3. \<forall>j<3. D i j = 0) \<longrightarrow>
            compute_calibration_matrix lapack c = Inl LinAlgError) \<and>
         (\<forall>r. compute_calibration_matrix lapack c = Inr r \<longrightarrow>
            grav c \<noteq> 0 \<and> expected_angle c \<noteq> 0 \<and>
            (\<exists>ka kg. K_a r = Some (mat_of (spec_diag ka)) \<and>
                     K_g r = Some (mat_of (spec_diag kg)) \<and>
                     ka 0 \<noteq> 0 \<and> ka 1 \<noteq> 0 \<and> ka 2 \<noteq> 0 \<and>
                     kg 0 \<noteq> 0 \<and> kg 1 \<noteq> 0 \<and> kg 2 \<noteq> 0))"
proof -
  from assms(2) obtain xp yp zp xa ya za where
    a: "acc_x_p c = Some xp" "acc_y_p c = Some yp" "acc_z_p c = Some zp"
       "acc_x_a c = Some xa" "acc_y_a c = Some ya" "acc_z_a c = Some za"
       "xp \<noteq> []" "yp \<noteq> []" "zp \<noteq> []" "xa \<noteq> []" "ya \<noteq> []" "za \<noteq> []"
    by (rule valid_input_acc_statics)
  have D: "D = (\<lambda>i j. means_in_columns xp yp zp i j - means_in_columns xa ya za i j)"
    by (simp add: D_def a)
  define ka where "ka = (\<lambda>i. sqrt (spec_mul D (spec_T D) i i / (4 * (grav c)\<^sup>2)))"
  have ex1: "compute_acc_matrix lapack c new_calibration_info =
     (if grav c = 0 then Inl ZeroDivisionError
      else if ka 0 = 0 \<or> ka 1 = 0 \<or> ka 2 = 0 then Inl LinAlgError
      else Inr (new_calibration_info\<lparr>b_a := Some (vec_of (\<lambda>i.
                      (means_in_columns xp yp zp i i + means_in_columns xa ya za i i) / 2)),
                    K_a := Some (mat_of (spec_diag ka)),
                    R_a := Some (mat_of (\<lambda>i j. spec_mul (spec_diag (\<lambda>i. 1 / ka i)) D i j / (2 * grav c)))\<rparr>))"
    unfolding ka_def D
    by (rule compute_acc_matrix_valid) (rule a)+
  have first: "compute_calibration_matrix lapack c = Inl LinAlgError"
    if g: "grav c \<noteq> 0" and z: "\<exists>i<3. \<forall>j<3. D i j = 0"
  proof -
    from z obtain i where i: "i < 3" "\<forall>j<3. D i j = 0" by blast
    then have "ka i = 0" unfolding ka_def by (intro zero_row_scale)
    with i(1) have "ka 0 = 0 \<or> ka 1 = 0 \<or> ka 2 = 0"
      by (auto simp: less3)
    with g have "compute_acc_matrix lapack c new_calibration_info = Inl LinAlgError"
      unfolding ex1 by simp
    then show ?thesis by (simp add: compute_calibration_matrix_def ebind_Inl)
  qed
  have second: "grav c \<noteq> 0 \<and> expected_angle c \<noteq> 0 \<and>
            (\<exists>ka kg. K_a r = Some (mat_of (spec_diag ka)) \<and>
                     K_g r = Some (mat_of (spec_diag kg)) \<and>
                     ka 0 \<noteq> 0 \<and> ka 1 \<noteq> 0 \<and> ka 2 \<noteq> 0 \<and>
                     kg 0 \<noteq> 0 \<and> kg 1 \<noteq> 0 \<and> kg 2 \<noteq> 0)"
    if "compute_calibration_matrix lapack c = Inr r" for r
    using compute_result_explicit [OF assms(2) that] by blast
  from first second show ?thesis by blast
qed

lemmas degenerate_defs = degenerate_measurement_def FerrarisCalibration_init_def
  example_segments_def or_default_def DEFAULT_GRAV_def EXPECTED_ANGLE_def

lemma degenerate_valid_input: "valid_input degenerate_measurement"
  by (simp add: valid_input_def segments_def degenerate_defs)

theorem degenerate_scale_raises_witness:
  "valid_input degenerate_measurement \<and> grav degenerate_measurement \<noteq> 0 \<and>
   compute_calibration_matrix no_lapack degenerate_measurement = Inl LinAlgError \<and>
   valid_input example_measurement \<and>
   compute_calibration_matrix no_lapack example_measurement = Inr identity_calibration \<and>
   grav example_measurement \<noteq> 0 \<and> expected_angle example_measurement \<noteq> 0"
proof -
  let ?D = "\<lambda>i j.
      means_in_columns (the (acc_x_p degenerate_measurement)) (the (acc_y_p degenerate_measurement))
        (the (acc_z_p degenerate_measurement)) i j -
      means_in_columns (the (acc_x_a degenerate_measurement)) (the (acc_y_a degenerate_measurement))
        (the (acc_z_a degenerate_measurement)) i j"
  have g: "grav degenerate_measurement \<noteq> 0"
    by (simp add: degenerate_defs)
  have "\<forall>j<3. ?D 0 j = 0"
    by (simp add: less3 degenerate_defs means_in_columns_def segment_mean_def comp3_def)
  then have z: "\<exists>i<3. \<forall>j<3. ?D i j = 0"
    by (intro exI [of _ 0]) simp
  have d: "compute_calibration_matrix no_lapack degenerate_measurement = Inl LinAlgError"
    using degenerate_scale_raises [OF degenerate_valid_input, of no_lapack] g z by blast
  have "grav example_measurement \<noteq> 0 \<and> expected_angle example_measurement \<noteq> 0"
    using degenerate_scale_raises [OF example_valid_input, of no_lapack] example_computes
    by blast
  with d g degenerate_valid_input example_valid_input example_computes show ?thesis by blast
qed

text \<open>
  The claim C9 as stated fails for the expected angle: given the expected angle 0, the
  constructor stores the default 360, and the estimation returns the record it returns
  for 360 instead of failing.
\<close>

theorem zero_expected_angle_is_replaced:
  "expected_angle
     (FerrarisCalibration_init 100 None (Some 0) (map_of (example_segments DEFAULT_GRAV))) = 360 \<and>
   compute_calibration_matrix no_lapack
     (FerrarisCalibration_init 100 None (Some 0) (map_of (example_segments DEFAULT_GRAV))) =
     Inr identity_calibration"
proof -
  have "FerrarisCalibration_init 100 None (Some 0) (map_of (example_segments DEFAULT_GRAV)) =
        example_measurement"
    by (simp add: example_measurement_def FerrarisCalibration_init_def or_default_def)
  moreover have "expected_angle example_measurement = 360"
    by (simp add: example_input_defs)
  ultimately show ?thesis using example_computes by simp
qed

end
